theory Spec2Isabelle
  imports Complex_Main "HOL-Library.Signed_Division"
begin

section \<open>Go memory: pointers and allocation\<close>

text \<open>
  The optional fields of \<^verbatim>\<open>expinfrav1.AWSLifecycleHook\<close> and every field of the SDK's
  \<^verbatim>\<open>autoscaling.LifecycleHook\<close> are Go pointers: the source tests them against
  \<^verbatim>\<open>nil\<close>, dereferences them with \<^verbatim>\<open>*\<close> and fills them with \<^verbatim>\<open>&defaultResult\<close>.
  Go's \<^verbatim>\<open>!=\<close> on two pointers compares the addresses, not the pointees, so the model
  keeps addresses: a pointer is \<open>None\<close> (nil) or \<open>Some a\<close> for an address \<open>a\<close>, and the
  pointees live in a store with one total cell function per pointee type. Addresses at or
  above \<open>brk\<close> are free; an allocation takes the address \<open>brk\<close>.
\<close>

type_synonym addr = nat
type_synonym ptr = "addr option"

record memory =
  strings :: "addr \<Rightarrow> string"
  int64s :: "addr \<Rightarrow> int"
  durations :: "addr \<Rightarrow> int"
  brk :: addr

definition new_string :: "string \<Rightarrow> memory \<Rightarrow> addr \<times> memory" where
  "new_string v m = (brk m, m\<lparr>strings := (strings m)(brk m := v), brk := Suc (brk m)\<rparr>)"

definition new_int64 :: "int \<Rightarrow> memory \<Rightarrow> addr \<times> memory" where
  "new_int64 v m = (brk m, m\<lparr>int64s := (int64s m)(brk m := v), brk := Suc (brk m)\<rparr>)"

definition new_duration :: "int \<Rightarrow> memory \<Rightarrow> addr \<times> memory" where
  "new_duration v m = (brk m, m\<lparr>durations := (durations m)(brk m := v), brk := Suc (brk m)\<rparr>)"

section \<open>Data model\<close>

text \<open>
  \<^verbatim>\<open>expinfrav1.AWSLifecycleHook\<close>. The declaration of the struct is not among the sources;
  its fields and their types are read off the statements that use them. \<open>Name\<close> and
  \<open>LifecycleTransition\<close> are strings held by value (\<^verbatim>\<open>aws.String(hook.Name)\<close>,
  \<^verbatim>\<open>hook.LifecycleTransition.String()\<close>); the other five fields are pointers
  (\<^verbatim>\<open>*string\<close>, \<^verbatim>\<open>*metav1.Duration\<close>, \<^verbatim>\<open>*DefaultResult\<close>): the source tests each against
  \<^verbatim>\<open>nil\<close>, assigns \<^verbatim>\<open>&metav1Duration\<close> and \<^verbatim>\<open>&defaultResult\<close> to two of them and
  copies the other three from and to the SDK's \<^verbatim>\<open>*string\<close> fields. A
  \<^verbatim>\<open>metav1.Duration\<close> is an int64 count of nanoseconds; a \<^verbatim>\<open>DefaultResult\<close> is a string.
\<close>

record AWSLifecycleHook =
  Name :: string
  NotificationTargetARN :: ptr
  RoleARN :: ptr
  LifecycleTransition :: string
  HeartbeatTimeout :: ptr
  DefaultResult :: ptr
  NotificationMetadata :: ptr

text \<open>\<^verbatim>\<open>autoscaling.LifecycleHook\<close> of the SDK, as a response holds it: all fields are pointers.\<close>

record LifecycleHook =
  sdk_DefaultResult :: ptr
  sdk_HeartbeatTimeout :: ptr
  sdk_LifecycleHookName :: ptr
  sdk_LifecycleTransition :: ptr
  sdk_NotificationMetadata :: ptr
  sdk_NotificationTargetARN :: ptr
  sdk_RoleARN :: ptr

text \<open>
  \<^verbatim>\<open>autoscaling.PutLifecycleHookInput\<close>. The client only reads the pointees of a request,
  and nothing writes to them between the construction of the request and the call, so the
  request is modelled by its contents: the two fields the source always sets with
  \<^verbatim>\<open>aws.String\<close> and the API requires are plain strings, an unset optional field is \<open>None\<close>.
\<close>

record PutLifecycleHookInput =
  put_AutoScalingGroupName :: string
  put_LifecycleHookName :: string
  put_LifecycleTransition :: "string option"
  put_DefaultResult :: "string option"
  put_HeartbeatTimeout :: "int option"
  put_NotificationTargetARN :: "string option"
  put_RoleARN :: "string option"
  put_NotificationMetadata :: "string option"

text \<open>A hook as the scaling group registers it (the wire hook of the remote API).\<close>

record wire_hook =
  w_name :: string
  w_transition :: "string option"
  w_default_result :: "string option"
  w_heartbeat :: "int option"
  w_target :: "string option"
  w_role :: "string option"
  w_metadata :: "string option"

text \<open>
  Go errors: what the SDK client returns, and \<^verbatim>\<open>errors.Wrapf(err, format, args...)\<close>.
  A nil pointer dereference is a panic, kept apart from returned errors.
\<close>

datatype error = AWSError string | Wrapf error string "string list"

datatype 'a result = Panic | Err error | Ok 'a

text \<open>
  Status conditions of the machine pool (\<^verbatim>\<open>scope.GetMachinePool()\<close> is a pointer, so
  every mark lands on the one shared object). The condition types and reasons are constants
  of \<^verbatim>\<open>expinfrav1\<close> whose declarations are not part of the sources; they are kept
  symbolic. The source passes \<^verbatim>\<open>err.Error()\<close> where the library expects a message format,
  and the library stores \<^verbatim>\<open>fmt.Sprintf\<close> of it with no further arguments: the text of the
  error, except where that text holds a \<^verbatim>\<open>%\<close>. The message is kept symbolic as
  \<open>Sprintf err\<close>.
\<close>

datatype message = Sprintf error

datatype ConditionType = LifecycleHookExistsCondition | LifecycleHookReadyCondition

datatype ConditionStatus = ConditionTrue | ConditionFalse | ConditionUnknown

datatype ConditionReason =
  LifecycleHookNotFoundReason
| LifecycleHookCreationFailedReason
| LifecycleHookUpdateFailedReason
| LifecycleHookDeletionFailedReason

datatype ConditionSeverity = ConditionSeverityError

record Condition =
  Status :: ConditionStatus
  Severity :: "ConditionSeverity option"
  Reason :: "ConditionReason option"
  Message :: "message option"

text \<open>
  The operations of the gateway, as a pass issues them. The list \<open>issued\<close> of the world
  records them in order; it is what "a call was (not) made" refers to.
\<close>

datatype event =
  GetHooksCall
| GetHookCall string
| CreateCall string
| UpdateCall string
| DeleteCall string

text \<open>
  Everything a pass reads or changes outside its arguments:
  \<^item> \<open>registered g\<close>: the hooks that the scaling group \<open>g\<close> holds at the remote API;
  \<^item> \<open>issued\<close>: the gateway operations issued so far, oldest first;
  \<^item> \<open>answers k\<close>: the error code with which the API answers request number \<open>k\<close>
    (counted from 0 over all requests), or \<open>None\<close> when it serves the request; any
    pattern of remote failures of a sequential run is such a function;
  \<^item> \<open>api_DefaultResult\<close>, \<open>api_HeartbeatTimeout\<close>: what the API registers for a
    default result or a heartbeat timeout that a put request leaves out (\<open>None\<close>: it
    registers the hook without the field);
  \<^item> \<open>mem\<close>: the Go memory;
  \<^item> \<open>Conditions\<close>: the conditions of the machine pool.
\<close>

record world =
  registered :: "string \<Rightarrow> wire_hook list"
  issued :: "event list"
  answers :: "nat \<Rightarrow> string option"
  api_DefaultResult :: "string option"
  api_HeartbeatTimeout :: "int option"
  mem :: memory
  Conditions :: "ConditionType \<Rightarrow> Condition option"

text \<open>\<^verbatim>\<open>scope.LifecycleHookScope\<close>, with the fields a pass reads.\<close>

record LifecycleHookScope =
  PoolName :: string
  LifecycleHooks :: "AWSLifecycleHook list"

definition GetASGName :: "LifecycleHookScope \<Rightarrow> string" where
  "GetASGName s = PoolName s"

definition scope_GetLifecycleHooks :: "LifecycleHookScope \<Rightarrow> AWSLifecycleHook list" where
  "scope_GetLifecycleHooks s = LifecycleHooks s"

section \<open>Conditions\<close>

text \<open>\<^verbatim>\<open>conditions.MarkTrue\<close>, \<^verbatim>\<open>MarkFalse\<close> and \<^verbatim>\<open>MarkUnknown\<close> of cluster-api: each
  replaces the condition of the given type.\<close>

definition MarkTrue :: "ConditionType \<Rightarrow> world \<Rightarrow> world" where
  "MarkTrue t w = w\<lparr>Conditions := (Conditions w)
     (t \<mapsto> \<lparr>Status = ConditionTrue, Severity = None, Reason = None, Message = None\<rparr>)\<rparr>"

definition MarkFalse ::
  "ConditionType \<Rightarrow> ConditionReason \<Rightarrow> ConditionSeverity \<Rightarrow> error \<Rightarrow> world \<Rightarrow> world" where
  "MarkFalse t r sev e w = w\<lparr>Conditions := (Conditions w)
     (t \<mapsto> \<lparr>Status = ConditionFalse, Severity = Some sev, Reason = Some r,
            Message = Some (Sprintf e)\<rparr>)\<rparr>"

definition MarkUnknown :: "ConditionType \<Rightarrow> ConditionReason \<Rightarrow> error \<Rightarrow> world \<Rightarrow> world" where
  "MarkUnknown t r e w = w\<lparr>Conditions := (Conditions w)
     (t \<mapsto> \<lparr>Status = ConditionUnknown, Severity = None, Reason = Some r,
            Message = Some (Sprintf e)\<rparr>)\<rparr>"

section \<open>Durations\<close>

text \<open>
  \<^verbatim>\<open>time.Second\<close>, and int64 arithmetic with its wrap-around. \<^verbatim>\<open>Duration.Seconds()\<close> is
  \<^verbatim>\<open>float64(d / Second) + float64(d % Second) / 1e9\<close> with Go's truncating division;
  \<^verbatim>\<open>int64(f)\<close> truncates towards zero. float64 arithmetic is modelled by exact
  arithmetic on the reals: on a duration of whole seconds every intermediate value is an
  integer below \<open>2 ^ 53\<close> in magnitude, which float64 represents exactly, so the model and
  the code agree there; on other durations the code may round where the model does not.
\<close>

definition Second :: int where
  "Second = 1000000000"

definition wrap64 :: "int \<Rightarrow> int" where
  "wrap64 x = (x + 2 ^ 63) mod 2 ^ 64 - 2 ^ 63"

definition Seconds :: "int \<Rightarrow> real" where
  "Seconds d = (let sec = d sdiv Second; nsec = d smod Second
                in real_of_int sec + real_of_int nsec / 1000000000)"

definition int64_of_float64 :: "real \<Rightarrow> int" where
  "int64_of_float64 f = (if 0 \<le> f then \<lfloor>f\<rfloor> else \<lceil>f\<rceil>)"

text \<open>The two conversions of the heartbeat timeout: on write
  (\<^verbatim>\<open>aws.Int64(int64(hook.HeartbeatTimeout.Duration.Seconds()))\<close>) and on read
  (\<^verbatim>\<open>time.Duration(*hook.HeartbeatTimeout) * time.Second\<close>).\<close>

definition timeoutSeconds :: "int \<Rightarrow> int" where
  "timeoutSeconds d = int64_of_float64 (Seconds d)"

definition timeoutDuration :: "int \<Rightarrow> int" where
  "timeoutDuration n = wrap64 (n * Second)"

section \<open>The remote scaling-group API\<close>

text \<open>
  The SDK client (\<^verbatim>\<open>s.ASGClient\<close>) is outside the repository. It is modelled after the
  interface the specification gives it: \<^verbatim>\<open>DescribeHooks(group, [names])\<close> returns the
  registered hooks, all of them or those with the given names; \<^verbatim>\<open>PutHook\<close> creates or
  replaces the hook of that name; \<^verbatim>\<open>DeleteHook\<close> removes it. A request that the API
  answers with an error changes nothing. Every response is unmarshalled into new memory:
  each field that is present gets a pointer to a fresh cell.
\<close>

definition request :: "event \<Rightarrow> world \<Rightarrow> string option \<times> world" where
  "request ev w = (answers w (length (issued w)), w\<lparr>issued := issued w @ [ev]\<rparr>)"

fun unmarshal_string :: "string option \<Rightarrow> memory \<Rightarrow> ptr \<times> memory" where
  "unmarshal_string None m = (None, m)"
| "unmarshal_string (Some v) m = (case new_string v m of (a, m') \<Rightarrow> (Some a, m'))"

fun unmarshal_int64 :: "int option \<Rightarrow> memory \<Rightarrow> ptr \<times> memory" where
  "unmarshal_int64 None m = (None, m)"
| "unmarshal_int64 (Some v) m = (case new_int64 v m of (a, m') \<Rightarrow> (Some a, m'))"

definition unmarshal :: "wire_hook \<Rightarrow> memory \<Rightarrow> LifecycleHook \<times> memory" where
  "unmarshal h m0 =
    (case unmarshal_string (w_default_result h) m0 of (dr, m1) \<Rightarrow>
    (case unmarshal_int64 (w_heartbeat h) m1 of (hb, m2) \<Rightarrow>
    (case unmarshal_string (Some (w_name h)) m2 of (nm, m3) \<Rightarrow>
    (case unmarshal_string (w_transition h) m3 of (tr, m4) \<Rightarrow>
    (case unmarshal_string (w_metadata h) m4 of (md, m5) \<Rightarrow>
    (case unmarshal_string (w_target h) m5 of (tg, m6) \<Rightarrow>
    (case unmarshal_string (w_role h) m6 of (rl, m7) \<Rightarrow>
       (\<lparr>sdk_DefaultResult = dr, sdk_HeartbeatTimeout = hb, sdk_LifecycleHookName = nm,
         sdk_LifecycleTransition = tr, sdk_NotificationMetadata = md,
         sdk_NotificationTargetARN = tg, sdk_RoleARN = rl\<rparr>, m7))))))))"

fun unmarshal_all :: "wire_hook list \<Rightarrow> memory \<Rightarrow> LifecycleHook list \<times> memory" where
  "unmarshal_all [] m = ([], m)"
| "unmarshal_all (h # hs) m =
    (case unmarshal h m of (x, m1) \<Rightarrow>
    (case unmarshal_all hs m1 of (xs, m2) \<Rightarrow> (x # xs, m2)))"

definition DescribeLifecycleHooksWithContext ::
  "event \<Rightarrow> string \<Rightarrow> string list option \<Rightarrow> world \<Rightarrow> (error + LifecycleHook list) \<times> world" where
  "DescribeLifecycleHooksWithContext ev g names w =
    (case request ev w of
       (Some code, w1) \<Rightarrow> (Inl (AWSError code), w1)
     | (None, w1) \<Rightarrow>
         (let found = (case names of
                         None \<Rightarrow> registered w1 g
                       | Some ns \<Rightarrow> filter (\<lambda>h. w_name h \<in> set ns) (registered w1 g))
          in case unmarshal_all found (mem w1) of
               (out, m') \<Rightarrow> (Inr out, w1\<lparr>mem := m'\<rparr>)))"

definition stored :: "string option \<Rightarrow> int option \<Rightarrow> PutLifecycleHookInput \<Rightarrow> wire_hook" where
  "stored dr hb i = \<lparr>w_name = put_LifecycleHookName i, w_transition = put_LifecycleTransition i,
     w_default_result = (case put_DefaultResult i of None \<Rightarrow> dr | Some v \<Rightarrow> Some v),
     w_heartbeat = (case put_HeartbeatTimeout i of None \<Rightarrow> hb | Some v \<Rightarrow> Some v),
     w_target = put_NotificationTargetARN i, w_role = put_RoleARN i,
     w_metadata = put_NotificationMetadata i\<rparr>"

fun upsert :: "wire_hook \<Rightarrow> wire_hook list \<Rightarrow> wire_hook list" where
  "upsert h [] = [h]"
| "upsert h (x # xs) = (if w_name x = w_name h then h # xs else x # upsert h xs)"

definition PutLifecycleHookWithContext ::
  "event \<Rightarrow> PutLifecycleHookInput \<Rightarrow> world \<Rightarrow> error option \<times> world" where
  "PutLifecycleHookWithContext ev i w =
    (case request ev w of
       (Some code, w1) \<Rightarrow> (Some (AWSError code), w1)
     | (None, w1) \<Rightarrow>
         (let g = put_AutoScalingGroupName i;
              h = stored (api_DefaultResult w1) (api_HeartbeatTimeout w1) i
          in (None, w1\<lparr>registered := (registered w1)(g := upsert h (registered w1 g))\<rparr>)))"

definition DeleteLifecycleHookWithContext ::
  "event \<Rightarrow> string \<Rightarrow> string \<Rightarrow> world \<Rightarrow> error option \<times> world" where
  "DeleteLifecycleHookWithContext ev g n w =
    (case request ev w of
       (Some code, w1) \<Rightarrow> (Some (AWSError code), w1)
     | (None, w1) \<Rightarrow>
         (None, w1\<lparr>registered :=
            (registered w1)(g := filter (\<lambda>h. w_name h \<noteq> n) (registered w1 g))\<rparr>))"

section \<open>The gateway (package asg)\<close>

text \<open>
  The functions of \<^verbatim>\<open>src/pkg/cloud/scope/lifecyclehook.go\<close> that the engine calls through
  \<^verbatim>\<open>services.ASGInterface\<close>. The variants of the first unnamed source file take the name
  of the group instead of the scope and are the same statement for statement.

  \<^verbatim>\<open>LifecycleHookNeedsUpdate\<close>: \<^verbatim>\<open>!=\<close> on the four pointer fields compares addresses,
  on \<open>LifecycleTransition\<close> it compares strings.
\<close>

definition LifecycleHookNeedsUpdate :: "AWSLifecycleHook \<Rightarrow> AWSLifecycleHook \<Rightarrow> bool" where
  "LifecycleHookNeedsUpdate existing expected \<longleftrightarrow>
     DefaultResult existing \<noteq> DefaultResult expected \<or>
     HeartbeatTimeout existing \<noteq> HeartbeatTimeout expected \<or>
     LifecycleTransition existing \<noteq> LifecycleTransition expected \<or>
     NotificationTargetARN existing \<noteq> NotificationTargetARN expected \<or>
     NotificationMetadata existing \<noteq> NotificationMetadata expected"

text \<open>
  \<^verbatim>\<open>SDKToLifecycleHook\<close>. The four dereferences \<^verbatim>\<open>*hook.HeartbeatTimeout\<close>,
  \<^verbatim>\<open>*hook.DefaultResult\<close>, \<^verbatim>\<open>*hook.LifecycleTransition\<close> and \<^verbatim>\<open>*hook.LifecycleHookName\<close>
  panic on nil. The locals \<^verbatim>\<open>metav1Duration\<close> and \<^verbatim>\<open>defaultResult\<close> have their address
  taken and outlive the call, so each is a new cell.
\<close>

definition SDKToLifecycleHook :: "LifecycleHook \<Rightarrow> memory \<Rightarrow> (AWSLifecycleHook \<times> memory) result" where
  "SDKToLifecycleHook hook m =
    (case sdk_HeartbeatTimeout hook of
       None \<Rightarrow> Panic
     | Some pt \<Rightarrow>
        (case new_duration (timeoutDuration (int64s m pt)) m of (metav1Duration, m1) \<Rightarrow>
        (case sdk_DefaultResult hook of
           None \<Rightarrow> Panic
         | Some pr \<Rightarrow>
            (case new_string (strings m1 pr) m1 of (defaultResult, m2) \<Rightarrow>
            (case sdk_LifecycleTransition hook of
               None \<Rightarrow> Panic
             | Some pl \<Rightarrow>
                (case sdk_LifecycleHookName hook of
                   None \<Rightarrow> Panic
                 | Some pn \<Rightarrow>
                     Ok (\<lparr>Name = strings m2 pn,
                          NotificationTargetARN = sdk_NotificationTargetARN hook,
                          RoleARN = sdk_RoleARN hook,
                          LifecycleTransition = strings m2 pl,
                          HeartbeatTimeout = Some metav1Duration,
                          DefaultResult = Some defaultResult,
                          NotificationMetadata = sdk_NotificationMetadata hook\<rparr>, m2)))))))"

text \<open>The loop \<^verbatim>\<open>for i, hook := range out.LifecycleHooks\<close> of \<^verbatim>\<open>GetLifecycleHooks\<close>.\<close>

fun convert_hooks :: "LifecycleHook list \<Rightarrow> memory \<Rightarrow> (AWSLifecycleHook list \<times> memory) result" where
  "convert_hooks [] m = Ok ([], m)"
| "convert_hooks (x # xs) m =
    (case SDKToLifecycleHook x m of
       Panic \<Rightarrow> Panic
     | Err e \<Rightarrow> Err e
     | Ok (h, m1) \<Rightarrow>
         (case convert_hooks xs m1 of
            Panic \<Rightarrow> Panic
          | Err e \<Rightarrow> Err e
          | Ok (hs, m2) \<Rightarrow> Ok (h # hs, m2)))"

definition GetLifecycleHooks :: "LifecycleHookScope \<Rightarrow> world \<Rightarrow> AWSLifecycleHook list result \<times> world" where
  "GetLifecycleHooks scope w =
    (let asgName = GetASGName scope
     in case DescribeLifecycleHooksWithContext GetHooksCall asgName None w of
          (Inl err, w1) \<Rightarrow>
            (Err (Wrapf err ''failed to describe lifecycle hooks for AutoScalingGroup: %q''
                    [GetASGName scope]), w1)
        | (Inr out, w1) \<Rightarrow>
            (case convert_hooks out (mem w1) of
               Panic \<Rightarrow> (Panic, w1)
             | Err e \<Rightarrow> (Err e, w1)
             | Ok (hooks, m') \<Rightarrow> (Ok hooks, w1\<lparr>mem := m'\<rparr>)))"

definition GetLifecycleHook ::
  "LifecycleHookScope \<Rightarrow> AWSLifecycleHook \<Rightarrow> world \<Rightarrow> AWSLifecycleHook option result \<times> world" where
  "GetLifecycleHook scope hook w =
    (let asgName = GetASGName scope
     in case DescribeLifecycleHooksWithContext (GetHookCall (Name hook)) asgName
               (Some [Name hook]) w of
          (Inl err, w1) \<Rightarrow>
            (Err (Wrapf err ''failed to describe lifecycle hook %q for AutoScalingGroup: %q''
                    [Name hook, GetASGName scope]), w1)
        | (Inr out, w1) \<Rightarrow>
            (case out of
               [] \<Rightarrow> (Ok None, w1)
             | first # _ \<Rightarrow>
                 (case SDKToLifecycleHook first (mem w1) of
                    Panic \<Rightarrow> (Panic, w1)
                  | Err e \<Rightarrow> (Err e, w1)
                  | Ok (h, m') \<Rightarrow> (Ok (Some h), w1\<lparr>mem := m'\<rparr>))))"

text \<open>The request that \<^verbatim>\<open>CreateLifecycleHook\<close> and \<^verbatim>\<open>UpdateLifecycleHook\<close> build, by the
  same statements in both.\<close>

definition put_input :: "string \<Rightarrow> AWSLifecycleHook \<Rightarrow> memory \<Rightarrow> PutLifecycleHookInput" where
  "put_input asgName hook m =
    \<lparr>put_AutoScalingGroupName = asgName,
     put_LifecycleHookName = Name hook,
     put_LifecycleTransition = Some (LifecycleTransition hook),
     put_DefaultResult = (case DefaultResult hook of None \<Rightarrow> None | Some p \<Rightarrow> Some (strings m p)),
     put_HeartbeatTimeout =
       (case HeartbeatTimeout hook of None \<Rightarrow> None | Some p \<Rightarrow> Some (timeoutSeconds (durations m p))),
     put_NotificationTargetARN =
       (case NotificationTargetARN hook of None \<Rightarrow> None | Some p \<Rightarrow> Some (strings m p)),
     put_RoleARN = (case RoleARN hook of None \<Rightarrow> None | Some p \<Rightarrow> Some (strings m p)),
     put_NotificationMetadata =
       (case NotificationMetadata hook of None \<Rightarrow> None | Some p \<Rightarrow> Some (strings m p))\<rparr>"

definition CreateLifecycleHook ::
  "LifecycleHookScope \<Rightarrow> AWSLifecycleHook \<Rightarrow> world \<Rightarrow> error option \<times> world" where
  "CreateLifecycleHook scope hook w =
    (let asgName = GetASGName scope;
         input = put_input asgName hook (mem w)
     in case PutLifecycleHookWithContext (CreateCall (Name hook)) input w of
          (Some err, w1) \<Rightarrow>
            (Some (Wrapf err ''failed to create lifecycle hook %q for AutoScalingGroup: %q''
                     [Name hook, GetASGName scope]), w1)
        | (None, w1) \<Rightarrow> (None, w1))"

definition UpdateLifecycleHook ::
  "LifecycleHookScope \<Rightarrow> AWSLifecycleHook \<Rightarrow> world \<Rightarrow> error option \<times> world" where
  "UpdateLifecycleHook scope hook w =
    (let asgName = GetASGName scope;
         input = put_input asgName hook (mem w)
     in case PutLifecycleHookWithContext (UpdateCall (Name hook)) input w of
          (Some err, w1) \<Rightarrow>
            (Some (Wrapf err ''failed to update lifecycle hook %q for AutoScalingGroup: %q''
                     [Name hook, GetASGName scope]), w1)
        | (None, w1) \<Rightarrow> (None, w1))"

definition DeleteLifecycleHook ::
  "LifecycleHookScope \<Rightarrow> AWSLifecycleHook \<Rightarrow> world \<Rightarrow> error option \<times> world" where
  "DeleteLifecycleHook scope hook w =
    (case DeleteLifecycleHookWithContext (DeleteCall (Name hook)) (GetASGName scope) (Name hook) w of
       (Some err, w1) \<Rightarrow>
         (Some (Wrapf err ''failed to delete lifecycle hook %q for AutoScalingGroup: %q''
                  [Name hook, GetASGName scope]), w1)
     | (None, w1) \<Rightarrow> (None, w1))"

section \<open>The convergence engine (package ec2)\<close>

text \<open>\<^verbatim>\<open>reconcileLifecycleHook\<close>. The calls of \<^verbatim>\<open>scope.Info\<close> only log and are left out.\<close>

definition reconcileLifecycleHook ::
  "LifecycleHookScope \<Rightarrow> AWSLifecycleHook \<Rightarrow> world \<Rightarrow> unit result \<times> world" where
  "reconcileLifecycleHook scope hook w =
    (case GetLifecycleHook scope hook w of
       (Panic, w1) \<Rightarrow> (Panic, w1)
     | (Err err, w1) \<Rightarrow>
         (Err err, MarkUnknown LifecycleHookReadyCondition LifecycleHookNotFoundReason err w1)
     | (Ok None, w1) \<Rightarrow>
         (case CreateLifecycleHook scope hook w1 of
            (Some err, w2) \<Rightarrow>
              (Err err, MarkFalse LifecycleHookExistsCondition LifecycleHookCreationFailedReason
                          ConditionSeverityError err w2)
          | (None, w2) \<Rightarrow> (Ok (), w2))
     | (Ok (Some existingHook), w1) \<Rightarrow>
         (if LifecycleHookNeedsUpdate existingHook hook then
            (case UpdateLifecycleHook scope hook w1 of
               (Some err, w2) \<Rightarrow>
                 (Err err, MarkFalse LifecycleHookExistsCondition LifecycleHookUpdateFailedReason
                             ConditionSeverityError err w2)
             | (None, w2) \<Rightarrow> (Ok (), MarkTrue LifecycleHookExistsCondition w2))
          else (Ok (), MarkTrue LifecycleHookExistsCondition w1)))"

text \<open>The first loop of \<^verbatim>\<open>ReconcileLifecycleHooks\<close>: it returns at the first hook that
  does not reconcile.\<close>

fun reconcile_defined ::
  "LifecycleHookScope \<Rightarrow> AWSLifecycleHook list \<Rightarrow> world \<Rightarrow> unit result \<times> world" where
  "reconcile_defined scope [] w = (Ok (), w)"
| "reconcile_defined scope (hook # rest) w =
    (case reconcileLifecycleHook scope hook w of
       (Ok u, w1) \<Rightarrow> reconcile_defined scope rest w1
     | (Err err, w1) \<Rightarrow> (Err err, w1)
     | (Panic, w1) \<Rightarrow> (Panic, w1))"

text \<open>The inner loop that sets \<^verbatim>\<open>found\<close>, and the loop over the registered hooks.\<close>

fun found_in :: "AWSLifecycleHook \<Rightarrow> AWSLifecycleHook list \<Rightarrow> bool" where
  "found_in hook [] = False"
| "found_in hook (definedHook # rest) =
    (if Name hook = Name definedHook then True else found_in hook rest)"

fun delete_undefined ::
  "LifecycleHookScope \<Rightarrow> AWSLifecycleHook list \<Rightarrow> world \<Rightarrow> unit result \<times> world" where
  "delete_undefined scope [] w = (Ok (), w)"
| "delete_undefined scope (hook # rest) w =
    (if \<not> found_in hook (scope_GetLifecycleHooks scope) then
       (case DeleteLifecycleHook scope hook w of
          (Some err, w1) \<Rightarrow>
            (Err err, MarkFalse LifecycleHookExistsCondition LifecycleHookDeletionFailedReason
                        ConditionSeverityError err w1)
        | (None, w1) \<Rightarrow> delete_undefined scope rest w1)
     else delete_undefined scope rest w)"

definition ReconcileLifecycleHooks :: "LifecycleHookScope \<Rightarrow> world \<Rightarrow> unit result \<times> world" where
  "ReconcileLifecycleHooks scope w =
    (let lifecyleHooks = scope_GetLifecycleHooks scope
     in case reconcile_defined scope lifecyleHooks w of
          (Err err, w1) \<Rightarrow> (Err err, w1)
        | (Panic, w1) \<Rightarrow> (Panic, w1)
        | (Ok u, w1) \<Rightarrow>
            (case GetLifecycleHooks scope w1 of
               (Err err, w2) \<Rightarrow> (Err err, w2)
             | (Panic, w2) \<Rightarrow> (Panic, w2)
             | (Ok hooks, w2) \<Rightarrow> delete_undefined scope hooks w2))"

section \<open>Values of the comparable fields\<close>

text \<open>
  The specification compares two hooks field by field, "by value equality", over five
  fields. The value of a field is what the hook says there: the pointee of a pointer field
  (nothing for nil), the string itself for \<open>LifecycleTransition\<close>. \<open>differing_fields\<close>
  lists the comparable fields whose values differ; it follows the specification's words and
  is what \<open>LifecycleHookNeedsUpdate\<close> is compared with.
\<close>

datatype field =
  DefaultResultField
| HeartbeatTimeoutField
| LifecycleTransitionField
| NotificationTargetARNField
| NotificationMetadataField

datatype content = Text string | Nanoseconds int

fun field_value :: "memory \<Rightarrow> AWSLifecycleHook \<Rightarrow> field \<Rightarrow> content option" where
  "field_value m h DefaultResultField =
     map_option (\<lambda>p. Text (strings m p)) (DefaultResult h)"
| "field_value m h HeartbeatTimeoutField =
     map_option (\<lambda>p. Nanoseconds (durations m p)) (HeartbeatTimeout h)"
| "field_value m h LifecycleTransitionField = Some (Text (LifecycleTransition h))"
| "field_value m h NotificationTargetARNField =
     map_option (\<lambda>p. Text (strings m p)) (NotificationTargetARN h)"
| "field_value m h NotificationMetadataField =
     map_option (\<lambda>p. Text (strings m p)) (NotificationMetadata h)"

definition comparable_fields :: "field list" where
  "comparable_fields = [DefaultResultField, HeartbeatTimeoutField, LifecycleTransitionField,
     NotificationTargetARNField, NotificationMetadataField]"

definition differing_fields :: "memory \<Rightarrow> AWSLifecycleHook \<Rightarrow> AWSLifecycleHook \<Rightarrow> field list" where
  "differing_fields m a b =
     filter (\<lambda>f. field_value m a f \<noteq> field_value m b f) comparable_fields"

section \<open>Observations\<close>

text \<open>The names of the hooks a scaling group holds, and the condition that
  \<^verbatim>\<open>conditions.MarkTrue\<close> writes.\<close>

definition registered_names :: "world \<Rightarrow> string \<Rightarrow> string set" where
  "registered_names w g = w_name ` set (registered w g)"

definition true_condition :: Condition where
  "true_condition = \<lparr>Status = ConditionTrue, Severity = None, Reason = None, Message = None\<rparr>"

text \<open>
  Memory only grows: \<open>extends m m'\<close> says that \<open>m'\<close> has every cell of \<open>m\<close> with its
  string and its int64. \<open>named m x n\<close> says that the SDK hook \<open>x\<close> points to the name
  \<open>n\<close> in \<open>m\<close>, \<open>heartbeat_in m x n\<close> that it points to the heartbeat timeout \<open>n\<close>.
  \<open>hook_events es\<close> says that \<open>es\<close> has no operation of the pruning step.
\<close>

definition extends :: "memory \<Rightarrow> memory \<Rightarrow> bool" where
  "extends m m' \<longleftrightarrow> brk m \<le> brk m' \<and>
     (\<forall>a<brk m. strings m' a = strings m a \<and> int64s m' a = int64s m a)"

definition named :: "memory \<Rightarrow> LifecycleHook \<Rightarrow> string \<Rightarrow> bool" where
  "named m x n \<longleftrightarrow> (\<exists>a. sdk_LifecycleHookName x = Some a \<and> a < brk m \<and> strings m a = n)"

definition heartbeat_in :: "memory \<Rightarrow> LifecycleHook \<Rightarrow> int \<Rightarrow> bool" where
  "heartbeat_in m x n \<longleftrightarrow>
     (\<exists>q. sdk_HeartbeatTimeout x = Some q \<and> q < brk m \<and> int64s m q = n)"

definition hook_events :: "event list \<Rightarrow> bool" where
  "hook_events es \<longleftrightarrow> GetHooksCall \<notin> set es \<and> (\<forall>n. DeleteCall n \<notin> set es)"

section \<open>Example inputs\<close>

text \<open>
  An empty memory, and a world in which nothing is registered, the API serves every
  request and fills in the default result and heartbeat timeout that the AWS
  documentation gives.
\<close>

definition mem0 :: memory where
  "mem0 = \<lparr>strings = (\<lambda>_. []), int64s = (\<lambda>_. 0), durations = (\<lambda>_. 0), brk = 0\<rparr>"

definition world0 :: world where
  "world0 = \<lparr>registered = (\<lambda>_. []), issued = [], answers = (\<lambda>_. None),
     api_DefaultResult = Some ''ABANDON'', api_HeartbeatTimeout = Some 3600,
     mem = mem0, Conditions = (\<lambda>_. None)\<rparr>"

definition launching :: string where
  "launching = ''autoscaling:EC2_INSTANCE_LAUNCHING''"

text \<open>The hooks of the specification's scenarios A and D: a name and a transition only.\<close>

definition hook_a :: AWSLifecycleHook where
  "hook_a = \<lparr>Name = ''a'', NotificationTargetARN = None, RoleARN = None,
     LifecycleTransition = launching, HeartbeatTimeout = None,
     DefaultResult = None, NotificationMetadata = None\<rparr>"

definition hook_b :: AWSLifecycleHook where
  "hook_b = \<lparr>Name = ''b'', NotificationTargetARN = None, RoleARN = None,
     LifecycleTransition = launching, HeartbeatTimeout = None,
     DefaultResult = None, NotificationMetadata = None\<rparr>"

definition scenarioA :: LifecycleHookScope where
  "scenarioA = \<lparr>PoolName = ''pool'', LifecycleHooks = [hook_a]\<rparr>"

definition scenarioD :: LifecycleHookScope where
  "scenarioD = \<lparr>PoolName = ''pool'', LifecycleHooks = [hook_a, hook_b]\<rparr>"

text \<open>In scenario D the API rejects request number 1, the creation of hook a.\<close>

definition world_D :: world where
  "world_D = world0\<lparr>answers := (\<lambda>k. if k = 1 then Some ''Throttling'' else None)\<rparr>"

definition no_hooks :: LifecycleHookScope where
  "no_hooks = \<lparr>PoolName = ''pool'', LifecycleHooks = []\<rparr>"

text \<open>
  A hook with a default result (cell 0) and a heartbeat timeout of 300 s (cell 1); cell 2
  holds a second copy of the default result.
\<close>

definition mem_two :: memory where
  "mem_two = \<lparr>strings = (\<lambda>_. [])(0 := ''CONTINUE'', 2 := ''CONTINUE''), int64s = (\<lambda>_. 0),
     durations = (\<lambda>_. 0)(1 := 300 * Second), brk = 3\<rparr>"

definition hook_c :: AWSLifecycleHook where
  "hook_c = \<lparr>Name = ''c'', NotificationTargetARN = None, RoleARN = None,
     LifecycleTransition = launching, HeartbeatTimeout = Some 1,
     DefaultResult = Some 0, NotificationMetadata = None\<rparr>"

definition scope_c :: LifecycleHookScope where
  "scope_c = \<lparr>PoolName = ''pool'', LifecycleHooks = [hook_c]\<rparr>"

text \<open>Two desired hooks, of which the group already holds the first.\<close>

definition scope_cb :: LifecycleHookScope where
  "scope_cb = \<lparr>PoolName = ''pool'', LifecycleHooks = [hook_c, hook_b]\<rparr>"

definition registered_c :: wire_hook where
  "registered_c = \<lparr>w_name = ''c'', w_transition = Some launching,
     w_default_result = Some ''CONTINUE'', w_heartbeat = Some 300, w_target = None,
     w_role = None, w_metadata = None\<rparr>"

definition world_c :: world where
  "world_c =
     world0\<lparr>registered := (\<lambda>g. if g = ''pool'' then [registered_c] else []), mem := mem_two\<rparr>"

text \<open>A world in which the group holds one hook that no scope defines.\<close>

definition orphan :: wire_hook where
  "orphan = \<lparr>w_name = ''orphan'', w_transition = Some launching,
     w_default_result = Some ''ABANDON'', w_heartbeat = Some 3600, w_target = None,
     w_role = None, w_metadata = None\<rparr>"

definition world_orphan :: world where
  "world_orphan =
     world0\<lparr>registered := (\<lambda>g. if g = ''pool'' then [orphan] else []), mem := mem_two\<rparr>"

text \<open>An SDK hook as a response holds it, with all four dereferenced fields present.\<close>

definition mem_sdk :: memory where
  "mem_sdk = \<lparr>strings = (\<lambda>_. [])(0 := ''ABANDON'', 1 := ''a'', 2 := launching),
     int64s = (\<lambda>_. 0)(3 := 600), durations = (\<lambda>_. 0), brk = 4\<rparr>"

definition sdk_full :: LifecycleHook where
  "sdk_full = \<lparr>sdk_DefaultResult = Some 0, sdk_HeartbeatTimeout = Some 3,
     sdk_LifecycleHookName = Some 1, sdk_LifecycleTransition = Some 2,
     sdk_NotificationMetadata = None, sdk_NotificationTargetARN = None, sdk_RoleARN = None\<rparr>"

section \<open>Evaluating the model\<close>

text \<open>The definitions that the simplifier unfolds to run the model on the examples.\<close>

lemmas gateway_defs =
  GetLifecycleHooks_def GetLifecycleHook_def CreateLifecycleHook_def UpdateLifecycleHook_def
  DeleteLifecycleHook_def DescribeLifecycleHooksWithContext_def PutLifecycleHookWithContext_def
  DeleteLifecycleHookWithContext_def request_def GetASGName_def scope_GetLifecycleHooks_def
  put_input_def stored_def unmarshal_def SDKToLifecycleHook_def
  new_string_def new_int64_def new_duration_def Let_def

lemmas engine_defs =
  ReconcileLifecycleHooks_def reconcileLifecycleHook_def LifecycleHookNeedsUpdate_def
  MarkTrue_def MarkFalse_def MarkUnknown_def

lemmas example_defs =
  world0_def mem0_def mem_two_def world_D_def world_orphan_def orphan_def
  world_c_def registered_c_def scope_cb_def
  hook_a_def hook_b_def hook_c_def scenarioA_def scenarioD_def scope_c_def no_hooks_def
  launching_def

lemmas duration_defs =
  timeoutDuration_def timeoutSeconds_def Seconds_def int64_of_float64_def wrap64_def
  Second_def signed_divide_int_def signed_modulo_int_def

section \<open>LifecycleHookNeedsUpdate\<close>

text \<open>A field whose value differs has a different pointer, or a different transition
  string: two equal pointers read the same cell.\<close>

lemma differing_needs_update:
  "differing_fields m a b \<noteq> [] \<Longrightarrow> LifecycleHookNeedsUpdate a b"
  by (auto simp: differing_fields_def comparable_fields_def LifecycleHookNeedsUpdate_def split: if_splits)

text \<open>
  C9: \<open>LifecycleHookNeedsUpdate h h\<close> is false for every hook \<open>h\<close>, and
  \<open>LifecycleHookNeedsUpdate a b\<close> is true whenever exactly one of the five comparable
  fields (default result, heartbeat timeout, lifecycle transition, notification target,
  notification metadata) differs in value between \<open>a\<close> and \<open>b\<close>.
\<close>

theorem NeedsUpdate_reflexive_one_field:
  "\<not> LifecycleHookNeedsUpdate h h \<and>
   (length (differing_fields m a b) = 1 \<longrightarrow> LifecycleHookNeedsUpdate a b)"
proof -
  have "\<not> LifecycleHookNeedsUpdate h h"
    by (simp add: LifecycleHookNeedsUpdate_def)
  moreover have "LifecycleHookNeedsUpdate a b" if "length (differing_fields m a b) = 1"
  proof -
    from that have "differing_fields m a b \<noteq> []" by auto
    then show ?thesis by (rule differing_needs_update)
  qed
  ultimately show ?thesis by blast
qed

text \<open>C9, at an input: two hooks that differ in the lifecycle transition only.\<close>

theorem NeedsUpdate_reflexive_one_field_witness:
  "\<not> LifecycleHookNeedsUpdate hook_c hook_c \<and>
   length (differing_fields mem_two hook_c (hook_c\<lparr>LifecycleTransition := ''autoscaling:EC2_INSTANCE_TERMINATING''\<rparr>)) = 1 \<and>
   LifecycleHookNeedsUpdate hook_c (hook_c\<lparr>LifecycleTransition := ''autoscaling:EC2_INSTANCE_TERMINATING''\<rparr>)"
  using NeedsUpdate_reflexive_one_field [of hook_c mem_two hook_c
      "hook_c\<lparr>LifecycleTransition := ''autoscaling:EC2_INSTANCE_TERMINATING''\<rparr>"]
  by (simp add: differing_fields_def comparable_fields_def hook_c_def launching_def)

text \<open>
  C4: the claim is that \<open>LifecycleHookNeedsUpdate\<close> is true if and only if one of the five
  fields differs by value. The code compares the pointers: two hooks whose default results
  are the same string in two cells have no differing field, and the function returns true.
\<close>

theorem NeedsUpdate_equal_values_distinct_cells:
  "differing_fields mem_two hook_c (hook_c\<lparr>DefaultResult := Some 2\<rparr>) = [] \<and>
   LifecycleHookNeedsUpdate hook_c (hook_c\<lparr>DefaultResult := Some 2\<rparr>)"
  by (simp add: differing_fields_def comparable_fields_def hook_c_def mem_two_def LifecycleHookNeedsUpdate_def)

text \<open>C4, at the same input: the default results of the two hooks have the same value, and
  the function returns true.\<close>

theorem NeedsUpdate_equal_values_distinct_cells_witness:
  "field_value mem_two hook_c DefaultResultField =
     field_value mem_two (hook_c\<lparr>DefaultResult := Some 2\<rparr>) DefaultResultField \<and>
   LifecycleHookNeedsUpdate hook_c (hook_c\<lparr>DefaultResult := Some 2\<rparr>)"
  using NeedsUpdate_equal_values_distinct_cells
  by (simp add: hook_c_def mem_two_def)

text \<open>The name and the role of a hook have no part in the comparison.\<close>

lemma NeedsUpdate_ignores_name_and_role:
  "LifecycleHookNeedsUpdate (a\<lparr>Name := n, RoleARN := r\<rparr>) (b\<lparr>Name := n', RoleARN := r'\<rparr>) =
     LifecycleHookNeedsUpdate a b"
  by (simp add: LifecycleHookNeedsUpdate_def)

text \<open>A hook read back from the API never passes the comparison: its default result and
  heartbeat timeout sit in cells allocated by the conversion, which no hook that existed
  before can point to.\<close>

lemma read_back_needs_update:
  assumes "SDKToLifecycleHook x m = Ok (existing, m')"
    and "case DefaultResult expected of None \<Rightarrow> True | Some a \<Rightarrow> a < brk m"
  shows "LifecycleHookNeedsUpdate existing expected"
  using assms
  by (auto simp: SDKToLifecycleHook_def new_duration_def new_string_def
      LifecycleHookNeedsUpdate_def split: option.splits)

section \<open>The heartbeat timeout\<close>

lemma Seconds_whole: "Seconds (s * Second) = real_of_int s"
proof -
  have "(s * Second) sdiv Second = sgn s * \<bar>s\<bar>"
    by (simp add: Second_def signed_divide_int_def sgn_mult abs_mult)
  then have q: "(s * Second) sdiv Second = s"
    by (simp add: mult_sgn_abs)
  have r: "(s * Second) smod Second = 0"
    by (simp add: Second_def signed_modulo_int_def abs_mult)
  show ?thesis
    by (simp add: Seconds_def q r)
qed

lemma int64_of_float64_int: "int64_of_float64 (real_of_int s) = s"
  by (simp add: int64_of_float64_def)

lemma wrap64_id: "- (2 ^ 63) \<le> x \<Longrightarrow> x < 2 ^ 63 \<Longrightarrow> wrap64 x = x"
  by (simp add: wrap64_def)

text \<open>On whole seconds inside the int64 range the two conversions are inverse.\<close>

lemma timeout_conversions_inverse:
  "- (2 ^ 63) \<le> s * Second \<Longrightarrow> s * Second < 2 ^ 63 \<Longrightarrow>
   timeoutDuration (timeoutSeconds (s * Second)) = s * Second"
  by (simp add: timeoutDuration_def timeoutSeconds_def Seconds_whole int64_of_float64_int wrap64_id)

section \<open>SDKToLifecycleHook\<close>

text \<open>
  C10: the claim is that \<open>SDKToLifecycleHook\<close> is defined on every wire hook, also when
  the heartbeat timeout or the default result is absent. The code dereferences both
  without a test: on a hook without heartbeat timeout it panics.
\<close>

theorem SDKToLifecycleHook_nil_timeout_panics:
  "SDKToLifecycleHook (sdk_full\<lparr>sdk_HeartbeatTimeout := None\<rparr>) mem_sdk = Panic"
  by (simp add: SDKToLifecycleHook_def sdk_full_def)

text \<open>
  C10, amended: \<open>SDKToLifecycleHook\<close> panics exactly when the heartbeat timeout, the default
  result, the lifecycle transition or the name of the wire hook is absent. When the four
  are present it returns a hook with that name and transition, the default result copied,
  the heartbeat timeout converted from seconds, and the notification target, role and
  metadata pointers as they came, absent ones staying absent.
\<close>

theorem SDKToLifecycleHook_defined_on_present:
  "(SDKToLifecycleHook hook m = Panic \<longleftrightarrow>
      sdk_HeartbeatTimeout hook = None \<or> sdk_DefaultResult hook = None \<or>
      sdk_LifecycleTransition hook = None \<or> sdk_LifecycleHookName hook = None) \<and>
   (sdk_HeartbeatTimeout hook = Some pt \<and> sdk_DefaultResult hook = Some pr \<and>
    sdk_LifecycleTransition hook = Some pl \<and> sdk_LifecycleHookName hook = Some pn \<and>
    pt < brk m \<and> pr < brk m \<and> pl < brk m \<and> pn < brk m \<longrightarrow>
    (\<exists>h m'. SDKToLifecycleHook hook m = Ok (h, m') \<and>
       Name h = strings m pn \<and>
       LifecycleTransition h = strings m pl \<and>
       map_option (strings m') (DefaultResult h) = Some (strings m pr) \<and>
       map_option (durations m') (HeartbeatTimeout h) = Some (timeoutDuration (int64s m pt)) \<and>
       NotificationTargetARN h = sdk_NotificationTargetARN hook \<and>
       RoleARN h = sdk_RoleARN hook \<and>
       NotificationMetadata h = sdk_NotificationMetadata hook))"
  by (auto simp: SDKToLifecycleHook_def new_duration_def new_string_def split: option.splits)

text \<open>C10, amended, at an input: a wire hook with a heartbeat timeout of 600 seconds.\<close>

theorem SDKToLifecycleHook_defined_on_present_witness:
  "sdk_HeartbeatTimeout sdk_full = Some 3 \<and> sdk_DefaultResult sdk_full = Some 0 \<and>
   sdk_LifecycleTransition sdk_full = Some 2 \<and> sdk_LifecycleHookName sdk_full = Some 1 \<and>
   3 < brk mem_sdk \<and> 0 < brk mem_sdk \<and> 2 < brk mem_sdk \<and> 1 < brk mem_sdk \<and>
   (\<exists>h m'. SDKToLifecycleHook sdk_full mem_sdk = Ok (h, m') \<and> Name h = ''a'' \<and>
      map_option (strings m') (DefaultResult h) = Some ''ABANDON'' \<and>
      map_option (durations m') (HeartbeatTimeout h) = Some (600 * Second) \<and>
      NotificationTargetARN h = None)"
  using SDKToLifecycleHook_defined_on_present [of sdk_full mem_sdk 3 0 2 1]
  by (auto simp: sdk_full_def mem_sdk_def timeoutDuration_def wrap64_def Second_def)

section \<open>DeleteLifecycleHook\<close>

text \<open>
  C7: the claim is that \<open>DeleteLifecycleHook\<close> returns no error when the API reports the
  hook as not found. The code returns every error of the API, wrapped: with nothing
  registered and the API answering "not found", the call returns that error.
\<close>

theorem DeleteLifecycleHook_not_found_is_error:
  "fst (DeleteLifecycleHook scenarioA hook_a (world0\<lparr>answers := (\<lambda>k. Some ''NotFound'')\<rparr>)) =
     Some (Wrapf (AWSError ''NotFound'')
       ''failed to delete lifecycle hook %q for AutoScalingGroup: %q'' [''a'', ''pool''])"
  by (simp add: gateway_defs world0_def scenarioA_def hook_a_def)

text \<open>
  C7, amended: \<open>DeleteLifecycleHook\<close> returns no error exactly when the API serves the
  request; whatever error the API answers with, not-found included, comes back wrapped.
\<close>

theorem DeleteLifecycleHook_returns_api_answer:
  "fst (DeleteLifecycleHook scope hook w) =
     (case answers w (length (issued w)) of
        None \<Rightarrow> None
      | Some code \<Rightarrow> Some (Wrapf (AWSError code)
          ''failed to delete lifecycle hook %q for AutoScalingGroup: %q''
          [Name hook, GetASGName scope]))"
  by (simp add: DeleteLifecycleHook_def DeleteLifecycleHookWithContext_def request_def
      split: option.splits)

text \<open>C7, amended, at an input: the API serves the request and no error comes back.\<close>

theorem DeleteLifecycleHook_returns_api_answer_witness:
  "answers world0 (length (issued world0)) = None \<and>
   fst (DeleteLifecycleHook scenarioA hook_a world0) = None"
  using DeleteLifecycleHook_returns_api_answer [of scenarioA hook_a world0]
  by (simp add: world0_def)

section \<open>Memory\<close>

lemma extends_refl: "extends m m"
  by (simp add: extends_def)

lemma extends_trans: "extends m1 m2 \<Longrightarrow> extends m2 m3 \<Longrightarrow> extends m1 m3"
  by (auto simp: extends_def)

lemma named_extends: "named m x n \<Longrightarrow> extends m m' \<Longrightarrow> named m' x n"
  by (auto simp: named_def extends_def)

lemma extends_new_string: "extends m (snd (new_string v m))"
  by (simp add: extends_def new_string_def)

lemma extends_new_int64: "extends m (snd (new_int64 v m))"
  by (simp add: extends_def new_int64_def)

lemma extends_new_duration: "extends m (snd (new_duration v m))"
  by (simp add: extends_def new_duration_def)

lemma extends_unmarshal_string: "unmarshal_string v m = (p, m') \<Longrightarrow> extends m m'"
  by (cases v) (auto simp: extends_def new_string_def)

lemma extends_unmarshal_int64: "unmarshal_int64 v m = (p, m') \<Longrightarrow> extends m m'"
  by (cases v) (auto simp: extends_def new_int64_def)

lemma unmarshal_string_Some:
  "unmarshal_string (Some v) m = (p, m') \<Longrightarrow> \<exists>a. p = Some a \<and> a < brk m' \<and> strings m' a = v"
  by (auto simp: new_string_def)

lemma unmarshal_named:
  assumes "unmarshal h m = (x, m')"
  shows "extends m m' \<and> named m' x (w_name h)"
proof -
  obtain dr m1 where s1: "unmarshal_string (w_default_result h) m = (dr, m1)" by fastforce
  obtain hb m2 where s2: "unmarshal_int64 (w_heartbeat h) m1 = (hb, m2)" by fastforce
  obtain nm m3 where s3: "unmarshal_string (Some (w_name h)) m2 = (nm, m3)" by fastforce
  obtain tr m4 where s4: "unmarshal_string (w_transition h) m3 = (tr, m4)" by fastforce
  obtain md m5 where s5: "unmarshal_string (w_metadata h) m4 = (md, m5)" by fastforce
  obtain tg m6 where s6: "unmarshal_string (w_target h) m5 = (tg, m6)" by fastforce
  obtain rl m7 where s7: "unmarshal_string (w_role h) m6 = (rl, m7)" by fastforce
  from assms s1 s2 s3 s4 s5 s6 s7
  have x: "sdk_LifecycleHookName x = nm" and m': "m' = m7"
    by (auto simp: unmarshal_def simp del: unmarshal_string.simps unmarshal_int64.simps)
  have e03: "extends m m3"
    using extends_unmarshal_string [OF s1] extends_unmarshal_int64 [OF s2]
      extends_unmarshal_string [OF s3]
    by (blast intro: extends_trans)
  have e37: "extends m3 m7"
    using extends_unmarshal_string [OF s4] extends_unmarshal_string [OF s5]
      extends_unmarshal_string [OF s6] extends_unmarshal_string [OF s7]
    by (blast intro: extends_trans)
  from unmarshal_string_Some [OF s3] x have "named m3 x (w_name h)"
    by (auto simp: named_def)
  then have "named m7 x (w_name h)" using e37 by (rule named_extends)
  moreover from e03 e37 have "extends m m7" by (rule extends_trans)
  ultimately show ?thesis using m' by simp
qed

lemma unmarshal_all_named:
  "unmarshal_all hs m = (xs, m') \<Longrightarrow>
     extends m m' \<and> list_all2 (\<lambda>h x. named m' x (w_name h)) hs xs"
proof (induction hs arbitrary: m xs m')
  case Nil
  then show ?case by (simp add: extends_refl)
next
  case (Cons h hs)
  obtain x m1 where u: "unmarshal h m = (x, m1)" by fastforce
  obtain ys m2 where v: "unmarshal_all hs m1 = (ys, m2)" by fastforce
  from Cons.prems u v have xs: "xs = x # ys" and m': "m' = m2" by auto
  from unmarshal_named [OF u] have a: "extends m m1" and b: "named m1 x (w_name h)" by auto
  from Cons.IH [OF v] have c: "extends m1 m2"
    and d: "list_all2 (\<lambda>h x. named m2 x (w_name h)) hs ys" by auto
  from b c have "named m2 x (w_name h)" by (rule named_extends)
  with a c d xs m' show ?case by (auto intro: extends_trans)
qed

lemma unmarshal_all_length: "unmarshal_all hs m = (xs, m') \<Longrightarrow> length xs = length hs"
  using unmarshal_all_named [of hs m xs m'] by (auto dest: list_all2_lengthD)

lemma SDKToLifecycleHook_Ok:
  assumes "SDKToLifecycleHook x m = Ok (h, m')"
  shows "extends m m' \<and> (named m x n \<longrightarrow> Name h = n)"
  using assms
  by (auto simp: SDKToLifecycleHook_def new_duration_def new_string_def extends_def named_def
      split: option.splits)

lemma convert_hooks_names:
  "convert_hooks xs m = Ok (hs, m') \<Longrightarrow> list_all2 (\<lambda>h0 x. named m x (w_name h0)) hs0 xs \<Longrightarrow>
     map Name hs = map w_name hs0"
proof (induction xs arbitrary: m hs m' hs0)
  case Nil
  then show ?case by simp
next
  case (Cons x xs)
  from Cons.prems(2) obtain h0 rest where hs0: "hs0 = h0 # rest"
    and n0: "named m x (w_name h0)"
    and nrest: "list_all2 (\<lambda>h0 x. named m x (w_name h0)) rest xs"
    by (auto simp: list_all2_Cons2)
  from Cons.prems(1) obtain h m1 hs1 where
    c1: "SDKToLifecycleHook x m = Ok (h, m1)" and
    c2: "convert_hooks xs m1 = Ok (hs1, m')" and hs: "hs = h # hs1"
    by (auto split: result.splits prod.splits)
  from SDKToLifecycleHook_Ok [OF c1, of "w_name h0"] n0
  have e: "extends m m1" and nh: "Name h = w_name h0" by auto
  from nrest e have "list_all2 (\<lambda>h0 x. named m1 x (w_name h0)) rest xs"
    by (auto elim!: list_all2_mono intro: named_extends)
  from Cons.IH [OF c2 this] nh hs hs0 show ?case by simp
qed

section \<open>Effects of the gateway operations\<close>

lemma unmarshal_all_Nil_iff: "unmarshal_all hs m = (xs, m') \<Longrightarrow> xs = [] \<longleftrightarrow> hs = []"
  using unmarshal_all_length [of hs m xs m'] by auto

lemma describe_effect:
  "DescribeLifecycleHooksWithContext ev g names w = (r, w') \<Longrightarrow>
     registered w' = registered w \<and> Conditions w' = Conditions w \<and>
     issued w' = issued w @ [ev] \<and> answers w' = answers w \<and>
     api_DefaultResult w' = api_DefaultResult w \<and> api_HeartbeatTimeout w' = api_HeartbeatTimeout w"
  by (auto simp: DescribeLifecycleHooksWithContext_def request_def Let_def
      split: option.splits prod.splits)

lemma describe_Inr:
  "DescribeLifecycleHooksWithContext ev g names w = (Inr out, w') \<Longrightarrow>
     \<exists>m'. unmarshal_all (case names of None \<Rightarrow> registered w g
              | Some ns \<Rightarrow> filter (\<lambda>h. w_name h \<in> set ns) (registered w g)) (mem w) = (out, m')
          \<and> mem w' = m'"
  by (auto simp: DescribeLifecycleHooksWithContext_def request_def Let_def
      split: option.splits prod.splits)

lemma GetLifecycleHook_effect:
  assumes "GetLifecycleHook scope hook w = (r, w')"
  shows "registered w' = registered w \<and> Conditions w' = Conditions w \<and>
     issued w' = issued w @ [GetHookCall (Name hook)] \<and> answers w' = answers w"
proof -
  obtain d w1 where d: "DescribeLifecycleHooksWithContext (GetHookCall (Name hook))
      (GetASGName scope) (Some [Name hook]) w = (d, w1)" by fastforce
  from describe_effect [OF d] have e: "registered w1 = registered w" "Conditions w1 = Conditions w"
     "issued w1 = issued w @ [GetHookCall (Name hook)]" "answers w1 = answers w" by auto
  from assms d have "w' = w1 \<or> (\<exists>m'. w' = w1\<lparr>mem := m'\<rparr>)"
    by (auto simp: GetLifecycleHook_def Let_def split: sum.splits list.splits result.splits)
  with e show ?thesis by auto
qed

lemma GetLifecycleHook_absent:
  assumes "GetLifecycleHook scope hook w = (Ok None, w')"
  shows "Name hook \<notin> registered_names w (PoolName scope)"
proof -
  obtain d w1 where d: "DescribeLifecycleHooksWithContext (GetHookCall (Name hook))
      (GetASGName scope) (Some [Name hook]) w = (d, w1)" by fastforce
  from assms d have "d = Inr []"
    by (auto simp: GetLifecycleHook_def Let_def split: sum.splits list.splits result.splits)
  with d have d': "DescribeLifecycleHooksWithContext (GetHookCall (Name hook))
      (GetASGName scope) (Some [Name hook]) w = (Inr [], w1)" by simp
  from describe_Inr [OF d'] have
    "unmarshal_all (filter (\<lambda>h. w_name h = Name hook) (registered w (GetASGName scope))) (mem w)
       = ([], mem w1)"
    by simp
  from unmarshal_all_Nil_iff [OF this]
  have "filter (\<lambda>h. w_name h = Name hook) (registered w (GetASGName scope)) = []" by simp
  then show ?thesis
    by (auto simp: registered_names_def GetASGName_def filter_empty_conv)
qed

lemma GetLifecycleHook_present:
  assumes "GetLifecycleHook scope hook w = (Ok (Some existingHook), w')"
  shows "Name hook \<in> registered_names w (PoolName scope)"
proof -
  obtain d w1 where d: "DescribeLifecycleHooksWithContext (GetHookCall (Name hook))
      (GetASGName scope) (Some [Name hook]) w = (d, w1)" by fastforce
  from assms d obtain x xs where "d = Inr (x # xs)"
    by (auto simp: GetLifecycleHook_def Let_def split: sum.splits list.splits result.splits)
  with d have d': "DescribeLifecycleHooksWithContext (GetHookCall (Name hook))
      (GetASGName scope) (Some [Name hook]) w = (Inr (x # xs), w1)" by simp
  from describe_Inr [OF d'] have
    "unmarshal_all (filter (\<lambda>h. w_name h = Name hook) (registered w (GetASGName scope))) (mem w)
       = (x # xs, mem w1)"
    by simp
  from unmarshal_all_Nil_iff [OF this]
  have "filter (\<lambda>h. w_name h = Name hook) (registered w (GetASGName scope)) \<noteq> []" by simp
  then show ?thesis
    by (force simp: registered_names_def GetASGName_def filter_empty_conv)
qed

lemma set_upsert: "w_name ` set (upsert h xs) = insert (w_name h) (w_name ` set xs)"
  by (induction xs) auto

lemma w_name_stored: "w_name (stored dr hb i) = put_LifecycleHookName i"
  by (simp add: stored_def)

lemma put_effect:
  assumes "PutLifecycleHookWithContext ev i w = (r, w')"
  shows "Conditions w' = Conditions w \<and> issued w' = issued w @ [ev] \<and> answers w' = answers w \<and>
     (r \<noteq> None \<longrightarrow> registered w' = registered w) \<and>
     (r = None \<longrightarrow> registered_names w' (put_AutoScalingGroupName i) =
        insert (put_LifecycleHookName i) (registered_names w (put_AutoScalingGroupName i)))"
proof (cases "answers w (length (issued w))")
  case None
  with assms have r: "r = None" and w': "w' = w\<lparr>issued := issued w @ [ev],
      registered := (registered w)(put_AutoScalingGroupName i :=
        upsert (stored (api_DefaultResult w) (api_HeartbeatTimeout w) i)
          (registered w (put_AutoScalingGroupName i)))\<rparr>"
    by (auto simp: PutLifecycleHookWithContext_def request_def Let_def)
  show ?thesis
    by (simp add: r w' registered_names_def set_upsert w_name_stored)
next
  case (Some code)
  with assms show ?thesis
    by (auto simp: PutLifecycleHookWithContext_def request_def)
qed

lemma CreateLifecycleHook_effect:
  assumes "CreateLifecycleHook scope hook w = (r, w')"
  shows "Conditions w' = Conditions w \<and> issued w' = issued w @ [CreateCall (Name hook)] \<and>
     answers w' = answers w \<and>
     (r \<noteq> None \<longrightarrow> registered w' = registered w) \<and>
     (r = None \<longrightarrow> registered_names w' (PoolName scope) =
        insert (Name hook) (registered_names w (PoolName scope)))"
proof -
  obtain p w1 where p: "PutLifecycleHookWithContext (CreateCall (Name hook))
     (put_input (GetASGName scope) hook (mem w)) w = (p, w1)" by fastforce
  from assms p have "w' = w1" and "r = None \<longleftrightarrow> p = None"
    by (auto simp: CreateLifecycleHook_def Let_def split: option.splits)
  with put_effect [OF p] show ?thesis
    by (simp add: put_input_def GetASGName_def)
qed

lemma UpdateLifecycleHook_effect:
  assumes "UpdateLifecycleHook scope hook w = (r, w')"
  shows "Conditions w' = Conditions w \<and> issued w' = issued w @ [UpdateCall (Name hook)] \<and>
     answers w' = answers w \<and>
     (r \<noteq> None \<longrightarrow> registered w' = registered w) \<and>
     (r = None \<longrightarrow> registered_names w' (PoolName scope) =
        insert (Name hook) (registered_names w (PoolName scope)))"
proof -
  obtain p w1 where p: "PutLifecycleHookWithContext (UpdateCall (Name hook))
     (put_input (GetASGName scope) hook (mem w)) w = (p, w1)" by fastforce
  from assms p have "w' = w1" and "r = None \<longleftrightarrow> p = None"
    by (auto simp: UpdateLifecycleHook_def Let_def split: option.splits)
  with put_effect [OF p] show ?thesis
    by (simp add: put_input_def GetASGName_def)
qed

lemma DeleteLifecycleHook_effect:
  "DeleteLifecycleHook scope hook w = (r, w') \<Longrightarrow>
     Conditions w' = Conditions w \<and> issued w' = issued w @ [DeleteCall (Name hook)] \<and>
     answers w' = answers w \<and>
     (r \<noteq> None \<longrightarrow> registered w' = registered w) \<and>
     (r = None \<longrightarrow> registered_names w' (PoolName scope) =
        registered_names w (PoolName scope) - {Name hook})"
  by (auto simp: DeleteLifecycleHook_def DeleteLifecycleHookWithContext_def request_def
      registered_names_def GetASGName_def split: option.splits)

lemma GetLifecycleHooks_effect:
  assumes "GetLifecycleHooks scope w = (r, w')"
  shows "registered w' = registered w \<and> Conditions w' = Conditions w \<and>
     issued w' = issued w @ [GetHooksCall] \<and> answers w' = answers w"
proof -
  obtain d w1 where d: "DescribeLifecycleHooksWithContext GetHooksCall
      (GetASGName scope) None w = (d, w1)" by fastforce
  from describe_effect [OF d] have e: "registered w1 = registered w" "Conditions w1 = Conditions w"
     "issued w1 = issued w @ [GetHooksCall]" "answers w1 = answers w" by auto
  from assms d have "w' = w1 \<or> (\<exists>m'. w' = w1\<lparr>mem := m'\<rparr>)"
    by (auto simp: GetLifecycleHooks_def Let_def split: sum.splits result.splits)
  with e show ?thesis by auto
qed

lemma GetLifecycleHooks_names:
  assumes "GetLifecycleHooks scope w = (Ok hooks, w')"
  shows "map Name hooks = map w_name (registered w (PoolName scope))"
proof -
  obtain d w1 where d: "DescribeLifecycleHooksWithContext GetHooksCall
      (GetASGName scope) None w = (d, w1)" by fastforce
  from assms d obtain out m' where out: "d = Inr out"
    and c: "convert_hooks out (mem w1) = Ok (hooks, m')"
    by (auto simp: GetLifecycleHooks_def Let_def split: sum.splits result.splits)
  from describe_Inr [of GetHooksCall "GetASGName scope" None w out w1] d out
  have u: "unmarshal_all (registered w (GetASGName scope)) (mem w) = (out, mem w1)" by auto
  from unmarshal_all_named [OF u]
  have "list_all2 (\<lambda>h x. named (mem w1) x (w_name h)) (registered w (GetASGName scope)) out"
    by simp
  from convert_hooks_names [OF c this] show ?thesis by (simp add: GetASGName_def)
qed

section \<open>The heartbeat timeout, written and read back\<close>

lemma heartbeat_in_extends: "heartbeat_in m x n \<Longrightarrow> extends m m' \<Longrightarrow> heartbeat_in m' x n"
  by (auto simp: heartbeat_in_def extends_def)

lemma unmarshal_int64_Some:
  "unmarshal_int64 (Some v) m = (p, m') \<Longrightarrow> \<exists>a. p = Some a \<and> a < brk m' \<and> int64s m' a = v"
  by (auto simp: new_int64_def)

lemma unmarshal_heartbeat:
  assumes "unmarshal h m = (x, m')" and "w_heartbeat h = Some n"
  shows "heartbeat_in m' x n"
proof -
  obtain dr m1 where s1: "unmarshal_string (w_default_result h) m = (dr, m1)" by fastforce
  obtain hb m2 where s2: "unmarshal_int64 (w_heartbeat h) m1 = (hb, m2)" by fastforce
  obtain nm m3 where s3: "unmarshal_string (Some (w_name h)) m2 = (nm, m3)" by fastforce
  obtain tr m4 where s4: "unmarshal_string (w_transition h) m3 = (tr, m4)" by fastforce
  obtain md m5 where s5: "unmarshal_string (w_metadata h) m4 = (md, m5)" by fastforce
  obtain tg m6 where s6: "unmarshal_string (w_target h) m5 = (tg, m6)" by fastforce
  obtain rl m7 where s7: "unmarshal_string (w_role h) m6 = (rl, m7)" by fastforce
  from assms(1) s1 s2 s3 s4 s5 s6 s7
  have x: "sdk_HeartbeatTimeout x = hb" and m': "m' = m7"
    by (auto simp: unmarshal_def simp del: unmarshal_string.simps unmarshal_int64.simps)
  have e27: "extends m2 m7"
    using extends_unmarshal_string [OF s3] extends_unmarshal_string [OF s4]
      extends_unmarshal_string [OF s5] extends_unmarshal_string [OF s6]
      extends_unmarshal_string [OF s7]
    by (blast intro: extends_trans)
  from s2 assms(2) have "unmarshal_int64 (Some n) m1 = (hb, m2)" by simp
  from unmarshal_int64_Some [OF this] x have "heartbeat_in m2 x n"
    by (auto simp: heartbeat_in_def)
  then have "heartbeat_in m7 x n" using e27 by (rule heartbeat_in_extends)
  with m' show ?thesis by simp
qed

lemma unmarshal_all_head_heartbeat:
  assumes "unmarshal_all (h # hs) m = (out, m')" and "w_heartbeat h = Some n"
  shows "\<exists>x xs. out = x # xs \<and> heartbeat_in m' x n"
proof -
  obtain x m1 where u: "unmarshal h m = (x, m1)" by fastforce
  obtain ys m2 where v: "unmarshal_all hs m1 = (ys, m2)" by fastforce
  from assms(1) u v have out: "out = x # ys" and m': "m' = m2" by auto
  from unmarshal_heartbeat [OF u assms(2)] have "heartbeat_in m1 x n" .
  moreover from unmarshal_all_named [OF v] have "extends m1 m2" by simp
  ultimately have "heartbeat_in m2 x n" by (rule heartbeat_in_extends)
  with out m' show ?thesis by simp
qed

lemma SDKToLifecycleHook_heartbeat:
  assumes "SDKToLifecycleHook x m = Ok (h, m')" and "sdk_HeartbeatTimeout x = Some q"
  shows "field_value m' h HeartbeatTimeoutField =
           Some (Nanoseconds (timeoutDuration (int64s m q)))"
  using assms
  by (auto simp: SDKToLifecycleHook_def new_duration_def new_string_def split: option.splits)

lemma filter_upsert_head:
  "\<exists>rest. filter (\<lambda>x. w_name x = w_name h) (upsert h xs) = h # rest"
  by (induction xs) auto

lemma put_input_heartbeat:
  assumes "HeartbeatTimeout hook = Some p" and "durations m p = s * Second"
  shows "put_HeartbeatTimeout (put_input g hook m) = Some s"
        "put_LifecycleHookName (put_input g hook m) = Name hook"
        "put_AutoScalingGroupName (put_input g hook m) = g"
  using assms
  by (simp_all add: put_input_def timeoutSeconds_def Seconds_whole int64_of_float64_int)

lemma put_registers_heartbeat:
  assumes "PutLifecycleHookWithContext ev i w = (None, w')"
    and "put_HeartbeatTimeout i = Some s"
  shows "\<exists>h rest. filter (\<lambda>x. w_name x = put_LifecycleHookName i)
            (registered w' (put_AutoScalingGroupName i)) = h # rest \<and> w_heartbeat h = Some s"
proof -
  let ?h = "stored (api_DefaultResult w) (api_HeartbeatTimeout w) i"
  from assms(1) have "registered w' (put_AutoScalingGroupName i) =
      upsert ?h (registered w (put_AutoScalingGroupName i))"
    by (auto simp: PutLifecycleHookWithContext_def request_def Let_def split: option.splits)
  moreover from filter_upsert_head [of ?h "registered w (put_AutoScalingGroupName i)"]
  obtain rest where "filter (\<lambda>x. w_name x = put_LifecycleHookName i)
      (upsert ?h (registered w (put_AutoScalingGroupName i))) = ?h # rest"
    by (auto simp: w_name_stored)
  moreover from assms(2) have "w_heartbeat ?h = Some s"
    by (simp add: stored_def)
  ultimately show ?thesis by auto
qed

lemma GetLifecycleHook_reads_heartbeat:
  assumes "GetLifecycleHook scope hook w = (Ok (Some existing), w')"
    and "filter (\<lambda>x. w_name x = Name hook) (registered w (PoolName scope)) = h # rest"
    and "w_heartbeat h = Some n"
  shows "field_value (mem w') existing HeartbeatTimeoutField =
           Some (Nanoseconds (timeoutDuration n))"
proof -
  obtain d w1 where d: "DescribeLifecycleHooksWithContext (GetHookCall (Name hook))
      (GetASGName scope) (Some [Name hook]) w = (d, w1)" by fastforce
  from assms(1) d obtain x xs m' where out: "d = Inr (x # xs)"
    and c: "SDKToLifecycleHook x (mem w1) = Ok (existing, m')" and w': "w' = w1\<lparr>mem := m'\<rparr>"
    by (auto simp: GetLifecycleHook_def Let_def split: sum.splits list.splits result.splits)
  from d out have d': "DescribeLifecycleHooksWithContext (GetHookCall (Name hook))
      (GetASGName scope) (Some [Name hook]) w = (Inr (x # xs), w1)" by simp
  from describe_Inr [OF d'] assms(2) have
    "unmarshal_all (h # rest) (mem w) = (x # xs, mem w1)"
    by (simp add: GetASGName_def)
  from unmarshal_all_head_heartbeat [OF this assms(3)]
  obtain q where q: "sdk_HeartbeatTimeout x = Some q" "int64s (mem w1) q = n"
    by (auto simp: heartbeat_in_def)
  from SDKToLifecycleHook_heartbeat [OF c q(1)] q(2) w' show ?thesis by simp
qed

text \<open>
  C8: let the heartbeat timeout of a hook be a whole number \<open>s\<close> of seconds that fits an
  int64 count of nanoseconds (the bounds of the remote system, 30 s to 48 h, lie well
  inside). Then the request that \<open>CreateLifecycleHook\<close> and \<open>UpdateLifecycleHook\<close> build
  carries \<open>s\<close>; \<open>SDKToLifecycleHook\<close> turns a wire hook that carries \<open>s\<close> into a hook
  whose heartbeat timeout is \<open>s\<close> seconds; and a hook written by either function and
  read back by \<open>GetLifecycleHook\<close> has the heartbeat timeout it was written with.
\<close>

theorem heartbeat_round_trip:
  assumes "- (2 ^ 63) \<le> s * Second" and "s * Second < 2 ^ 63"
    and "HeartbeatTimeout hook = Some p" and "durations (mem w) p = s * Second"
  shows "put_HeartbeatTimeout (put_input g hook (mem w)) = Some s \<and>
    (sdk_HeartbeatTimeout x = Some q \<and> int64s m q = s \<and>
       SDKToLifecycleHook x m = Ok (h, m') \<longrightarrow>
         field_value m' h HeartbeatTimeoutField = Some (Nanoseconds (s * Second))) \<and>
    ((CreateLifecycleHook scope hook w = (None, w1) \<or>
      UpdateLifecycleHook scope hook w = (None, w1)) \<and>
     GetLifecycleHook scope hook w1 = (Ok (Some existing), w2) \<longrightarrow>
       field_value (mem w2) existing HeartbeatTimeoutField = Some (Nanoseconds (s * Second)))"
proof -
  have inv: "timeoutDuration s = s * Second"
    using assms(1,2) by (simp add: timeoutDuration_def wrap64_id)
  let ?i = "put_input (GetASGName scope) hook (mem w)"
  note i = put_input_heartbeat [OF assms(3,4), of "GetASGName scope"]
  have sent: "put_HeartbeatTimeout (put_input g hook (mem w)) = Some s"
    by (rule put_input_heartbeat(1) [OF assms(3,4)])
  have got: "field_value m' h HeartbeatTimeoutField = Some (Nanoseconds (s * Second))"
    if "sdk_HeartbeatTimeout x = Some q" "int64s m q = s" "SDKToLifecycleHook x m = Ok (h, m')"
    using SDKToLifecycleHook_heartbeat [OF that(3) that(1)] that(2) inv by simp
  have both: "field_value (mem w2) existing HeartbeatTimeoutField = Some (Nanoseconds (s * Second))"
    if put: "CreateLifecycleHook scope hook w = (None, w1) \<or>
             UpdateLifecycleHook scope hook w = (None, w1)"
      and get: "GetLifecycleHook scope hook w1 = (Ok (Some existing), w2)"
  proof -
    from put have "\<exists>ev. PutLifecycleHookWithContext ev ?i w = (None, w1)"
      by (auto simp: CreateLifecycleHook_def UpdateLifecycleHook_def Let_def
          split: prod.splits option.splits)
    then obtain ev where p: "PutLifecycleHookWithContext ev ?i w = (None, w1)" ..
    from put_registers_heartbeat [OF p i(1)] i(2,3) obtain r rest where
      "filter (\<lambda>x. w_name x = Name hook) (registered w1 (PoolName scope)) = r # rest"
      "w_heartbeat r = Some s"
      by (auto simp: GetASGName_def)
    from GetLifecycleHook_reads_heartbeat [OF get this] inv show ?thesis by simp
  qed
  from sent got both show ?thesis by blast
qed

text \<open>C8, at an input: hook c with its timeout of 300 seconds, created and read back.\<close>

theorem heartbeat_round_trip_witness:
  "- (2 ^ 63) \<le> 300 * Second \<and> 300 * Second < 2 ^ 63 \<and>
   HeartbeatTimeout hook_c = Some 1 \<and> durations (mem (world0\<lparr>mem := mem_two\<rparr>)) 1 = 300 * Second \<and>
   put_HeartbeatTimeout (put_input ''pool'' hook_c (mem (world0\<lparr>mem := mem_two\<rparr>))) = Some 300 \<and>
   fst (CreateLifecycleHook scope_c hook_c (world0\<lparr>mem := mem_two\<rparr>)) = None \<and>
   (\<exists>existing.
      fst (GetLifecycleHook scope_c hook_c
            (snd (CreateLifecycleHook scope_c hook_c (world0\<lparr>mem := mem_two\<rparr>)))) =
        Ok (Some existing) \<and>
      field_value
        (mem (snd (GetLifecycleHook scope_c hook_c
            (snd (CreateLifecycleHook scope_c hook_c (world0\<lparr>mem := mem_two\<rparr>))))))
        existing HeartbeatTimeoutField = Some (Nanoseconds (300 * Second)))"
proof -
  let ?w = "world0\<lparr>mem := mem_two\<rparr>"
  let ?w1 = "snd (CreateLifecycleHook scope_c hook_c ?w)"
  let ?w2 = "snd (GetLifecycleHook scope_c hook_c ?w1)"
  have b: "- (2 ^ 63) \<le> 300 * Second" "300 * Second < 2 ^ 63"
    by (simp_all add: Second_def)
  have f: "HeartbeatTimeout hook_c = Some 1" "durations (mem ?w) 1 = 300 * Second"
    by (simp_all add: hook_c_def mem_two_def)
  have c: "fst (CreateLifecycleHook scope_c hook_c ?w) = None"
    by (simp add: gateway_defs example_defs duration_defs)
  then have c': "CreateLifecycleHook scope_c hook_c ?w = (None, ?w1)"
    by (simp add: prod_eq_iff)
  have "\<exists>existing. fst (GetLifecycleHook scope_c hook_c ?w1) = Ok (Some existing)"
    by (simp add: gateway_defs example_defs duration_defs)
  then obtain existing where g: "fst (GetLifecycleHook scope_c hook_c ?w1) = Ok (Some existing)" ..
  then have g': "GetLifecycleHook scope_c hook_c ?w1 = (Ok (Some existing), ?w2)"
    by (simp add: prod_eq_iff)
  from heartbeat_round_trip [OF b f, of "''pool''" _ _ _ _ _ scope_c ?w1 existing ?w2] c' g' g
  have "put_HeartbeatTimeout (put_input ''pool'' hook_c (mem ?w)) = Some 300"
    and "field_value (mem ?w2) existing HeartbeatTimeoutField = Some (Nanoseconds (300 * Second))"
    by blast+
  with b f c g show ?thesis by blast
qed

section \<open>One desired hook\<close>

lemma reconcileLifecycleHook_cases:
  assumes "reconcileLifecycleHook scope hook w = (r, w')"
  obtains
    (panic) w1 where "GetLifecycleHook scope hook w = (Panic, w1)" "r = Panic" "w' = w1"
  | (get_failed) err w1 where "GetLifecycleHook scope hook w = (Err err, w1)" "r = Err err"
      "w' = MarkUnknown LifecycleHookReadyCondition LifecycleHookNotFoundReason err w1"
  | (created) w1 where "GetLifecycleHook scope hook w = (Ok None, w1)"
      "CreateLifecycleHook scope hook w1 = (None, w')" "r = Ok ()"
  | (create_failed) err w1 w2 where "GetLifecycleHook scope hook w = (Ok None, w1)"
      "CreateLifecycleHook scope hook w1 = (Some err, w2)" "r = Err err"
      "w' = MarkFalse LifecycleHookExistsCondition LifecycleHookCreationFailedReason
              ConditionSeverityError err w2"
  | (updated) existingHook w1 w2 where "GetLifecycleHook scope hook w = (Ok (Some existingHook), w1)"
      "LifecycleHookNeedsUpdate existingHook hook"
      "UpdateLifecycleHook scope hook w1 = (None, w2)" "r = Ok ()"
      "w' = MarkTrue LifecycleHookExistsCondition w2"
  | (update_failed) existingHook err w1 w2 where
      "GetLifecycleHook scope hook w = (Ok (Some existingHook), w1)"
      "LifecycleHookNeedsUpdate existingHook hook"
      "UpdateLifecycleHook scope hook w1 = (Some err, w2)" "r = Err err"
      "w' = MarkFalse LifecycleHookExistsCondition LifecycleHookUpdateFailedReason
              ConditionSeverityError err w2"
  | (unchanged) existingHook w1 where
      "GetLifecycleHook scope hook w = (Ok (Some existingHook), w1)"
      "\<not> LifecycleHookNeedsUpdate existingHook hook" "r = Ok ()"
      "w' = MarkTrue LifecycleHookExistsCondition w1"
  using assms unfolding reconcileLifecycleHook_def
  by (auto split: prod.splits result.splits option.splits if_splits)

lemma Mark_simps:
  "registered (MarkTrue t w) = registered w" "issued (MarkTrue t w) = issued w"
  "registered (MarkFalse t r s e w) = registered w" "issued (MarkFalse t r s e w) = issued w"
  "registered (MarkUnknown t r e w) = registered w" "issued (MarkUnknown t r e w) = issued w"
  "registered_names (MarkTrue t w) g = registered_names w g"
  "Conditions (MarkTrue t w) t = Some true_condition"
  "Conditions (MarkFalse t r s e w) t =
     Some \<lparr>Status = ConditionFalse, Severity = Some s, Reason = Some r,
           Message = Some (Sprintf e)\<rparr>"
  by (simp_all add: MarkTrue_def MarkFalse_def MarkUnknown_def registered_names_def true_condition_def)

lemma reconcileLifecycleHook_Ok:
  assumes "reconcileLifecycleHook scope hook w = (Ok u, w')"
  shows "registered_names w' (PoolName scope) = insert (Name hook) (registered_names w (PoolName scope))"
    and "Name hook \<in> registered_names w (PoolName scope) \<Longrightarrow>
           Conditions w' LifecycleHookExistsCondition = Some true_condition"
    and "Name hook \<notin> registered_names w (PoolName scope) \<Longrightarrow> Conditions w' = Conditions w"
proof -
  let ?g = "PoolName scope"
  have "registered_names w' ?g = insert (Name hook) (registered_names w ?g) \<and>
    (Name hook \<in> registered_names w ?g \<longrightarrow>
       Conditions w' LifecycleHookExistsCondition = Some true_condition) \<and>
    (Name hook \<notin> registered_names w ?g \<longrightarrow> Conditions w' = Conditions w)"
    using assms
  proof (cases rule: reconcileLifecycleHook_cases)
    case (created w1)
    from GetLifecycleHook_effect [OF created(1)] GetLifecycleHook_absent [OF created(1)]
      CreateLifecycleHook_effect [OF created(2)]
    show ?thesis by (simp add: registered_names_def)
  next
    case (updated existingHook w1 w2)
    from GetLifecycleHook_effect [OF updated(1)] GetLifecycleHook_present [OF updated(1)]
      UpdateLifecycleHook_effect [OF updated(3)] updated(5)
    show ?thesis by (simp add: registered_names_def Mark_simps)
  next
    case (unchanged existingHook w1)
    from GetLifecycleHook_effect [OF unchanged(1)] GetLifecycleHook_present [OF unchanged(1)]
      unchanged(4)
    show ?thesis by (auto simp: registered_names_def Mark_simps)
  qed simp_all
  then show "registered_names w' (PoolName scope) = insert (Name hook) (registered_names w (PoolName scope))"
    and "Name hook \<in> registered_names w (PoolName scope) \<Longrightarrow>
           Conditions w' LifecycleHookExistsCondition = Some true_condition"
    and "Name hook \<notin> registered_names w (PoolName scope) \<Longrightarrow> Conditions w' = Conditions w"
    by auto
qed

lemma reconcileLifecycleHook_events:
  assumes "reconcileLifecycleHook scope hook w = (r, w')"
  shows "\<exists>es. issued w' = issued w @ es \<and> hook_events es"
  using assms
proof (cases rule: reconcileLifecycleHook_cases)
  case (panic w1)
  from GetLifecycleHook_effect [OF panic(1)] panic(3) show ?thesis
    by (simp add: hook_events_def)
next
  case (get_failed err w1)
  from GetLifecycleHook_effect [OF get_failed(1)] get_failed(3) show ?thesis
    by (simp add: hook_events_def Mark_simps)
next
  case (created w1)
  from GetLifecycleHook_effect [OF created(1)] CreateLifecycleHook_effect [OF created(2)]
  show ?thesis by (simp add: hook_events_def)
next
  case (create_failed err w1 w2)
  from GetLifecycleHook_effect [OF create_failed(1)] CreateLifecycleHook_effect [OF create_failed(2)]
    create_failed(4)
  show ?thesis by (simp add: hook_events_def Mark_simps)
next
  case (updated existingHook w1 w2)
  from GetLifecycleHook_effect [OF updated(1)] UpdateLifecycleHook_effect [OF updated(3)] updated(5)
  show ?thesis by (simp add: hook_events_def Mark_simps)
next
  case (update_failed existingHook err w1 w2)
  from GetLifecycleHook_effect [OF update_failed(1)] UpdateLifecycleHook_effect [OF update_failed(3)]
    update_failed(5)
  show ?thesis by (simp add: hook_events_def Mark_simps)
next
  case (unchanged existingHook w1)
  from GetLifecycleHook_effect [OF unchanged(1)] unchanged(4)
  show ?thesis by (simp add: hook_events_def Mark_simps)
qed

section \<open>The loop over the desired hooks\<close>

lemma reconcile_defined_append:
  "reconcile_defined scope (xs @ ys) w =
     (case reconcile_defined scope xs w of
        (Ok u, w1) \<Rightarrow> reconcile_defined scope ys w1
      | (Err err, w1) \<Rightarrow> (Err err, w1)
      | (Panic, w1) \<Rightarrow> (Panic, w1))"
  by (induction xs arbitrary: w) (auto split: prod.splits result.splits)

lemma reconcile_defined_names:
  "reconcile_defined scope hs w = (Ok u, w') \<Longrightarrow>
     registered_names w' (PoolName scope) = registered_names w (PoolName scope) \<union> Name ` set hs"
proof (induction hs arbitrary: w)
  case Nil
  then show ?case by simp
next
  case (Cons h hs)
  from Cons.prems obtain w1 where
    a: "reconcileLifecycleHook scope h w = (Ok (), w1)" and
    b: "reconcile_defined scope hs w1 = (Ok u, w')"
    by (auto split: prod.splits result.splits)
  from reconcileLifecycleHook_Ok(1) [OF a] Cons.IH [OF b] show ?case by auto
qed

lemma reconcile_defined_condition:
  "reconcile_defined scope hs w = (Ok u, w') \<Longrightarrow>
     Conditions w LifecycleHookExistsCondition = Some true_condition \<or>
       (\<exists>h\<in>set hs. Name h \<in> registered_names w (PoolName scope)) \<Longrightarrow>
     Conditions w' LifecycleHookExistsCondition = Some true_condition"
proof (induction hs arbitrary: w)
  case Nil
  then show ?case by simp
next
  case (Cons h hs)
  from Cons.prems(1) obtain w1 where
    a: "reconcileLifecycleHook scope h w = (Ok (), w1)" and
    b: "reconcile_defined scope hs w1 = (Ok u, w')"
    by (auto split: prod.splits result.splits)
  note n = reconcileLifecycleHook_Ok [OF a]
  have "Conditions w1 LifecycleHookExistsCondition = Some true_condition \<or>
       (\<exists>h\<in>set hs. Name h \<in> registered_names w1 (PoolName scope))"
  proof (cases "Name h \<in> registered_names w (PoolName scope)")
    case True
    with n(2) show ?thesis by simp
  next
    case False
    with n(3) have "Conditions w1 = Conditions w" by simp
    with Cons.prems(2) False n(1) show ?thesis by auto
  qed
  from Cons.IH [OF b this] show ?case .
qed

lemma hook_events_append: "hook_events xs \<Longrightarrow> hook_events ys \<Longrightarrow> hook_events (xs @ ys)"
  by (auto simp: hook_events_def)

lemma reconcile_defined_events:
  "reconcile_defined scope hs w = (r, w') \<Longrightarrow> \<exists>es. issued w' = issued w @ es \<and> hook_events es"
proof (induction hs arbitrary: w)
  case Nil
  then show ?case by (simp add: hook_events_def)
next
  case (Cons h hs)
  obtain r1 w1 where a: "reconcileLifecycleHook scope h w = (r1, w1)" by fastforce
  from reconcileLifecycleHook_events [OF a] obtain es1 where
    e1: "issued w1 = issued w @ es1" "hook_events es1" by auto
  show ?case
  proof (cases r1)
    case (Ok u)
    with Cons.prems a have "reconcile_defined scope hs w1 = (r, w')" by simp
    from Cons.IH [OF this] obtain es2 where "issued w' = issued w1 @ es2" "hook_events es2"
      by auto
    with e1 have "issued w' = issued w @ (es1 @ es2) \<and> hook_events (es1 @ es2)"
      by (simp add: hook_events_append)
    then show ?thesis by blast
  next
    case Panic
    with Cons.prems a e1 show ?thesis by auto
  next
    case (Err e)
    with Cons.prems a e1 show ?thesis by auto
  qed
qed

section \<open>The loop over the registered hooks\<close>

lemma found_in_iff: "found_in hook ds \<longleftrightarrow> Name hook \<in> Name ` set ds"
  by (induction ds) auto

lemma delete_undefined_Ok:
  "delete_undefined scope hs w = (Ok u, w') \<Longrightarrow>
     registered_names w' (PoolName scope) =
       registered_names w (PoolName scope) - (Name ` set hs - Name ` set (LifecycleHooks scope)) \<and>
     Conditions w' = Conditions w"
proof (induction hs arbitrary: w)
  case Nil
  then show ?case by simp
next
  case (Cons h hs)
  define D where "D = Name ` set (LifecycleHooks scope)"
  define H where "H = Name ` set hs"
  have hs: "Name ` set (h # hs) = insert (Name h) H" by (simp add: H_def)
  show ?case
  proof (cases "found_in h (scope_GetLifecycleHooks scope)")
    case True
    then have d: "Name h \<in> D"
      by (simp add: found_in_iff scope_GetLifecycleHooks_def D_def)
    from True Cons.prems have "delete_undefined scope hs w = (Ok u, w')" by simp
    from Cons.IH [OF this]
    have "registered_names w' (PoolName scope) = registered_names w (PoolName scope) - (H - D)"
      and c: "Conditions w' = Conditions w"
      by (simp_all add: D_def H_def)
    with d have "registered_names w' (PoolName scope) =
        registered_names w (PoolName scope) - (insert (Name h) H - D)"
      by blast
    with c show ?thesis unfolding hs D_def by simp
  next
    case False
    then have d: "Name h \<notin> D"
      by (simp add: found_in_iff scope_GetLifecycleHooks_def D_def)
    from False Cons.prems obtain w1 where
      a: "DeleteLifecycleHook scope h w = (None, w1)" and
      b: "delete_undefined scope hs w1 = (Ok u, w')"
      by (auto split: prod.splits option.splits)
    from DeleteLifecycleHook_effect [OF a]
    have n1: "registered_names w1 (PoolName scope) = registered_names w (PoolName scope) - {Name h}"
      and c1: "Conditions w1 = Conditions w" by simp_all
    from Cons.IH [OF b]
    have n2: "registered_names w' (PoolName scope) = registered_names w1 (PoolName scope) - (H - D)"
      and c2: "Conditions w' = Conditions w1"
      by (simp_all add: D_def H_def)
    from n1 n2 d have "registered_names w' (PoolName scope) =
        registered_names w (PoolName scope) - (insert (Name h) H - D)"
      by blast
    with c1 c2 show ?thesis unfolding hs D_def by simp
  qed
qed

section \<open>A whole pass\<close>

lemma ReconcileLifecycleHooks_Ok:
  assumes "ReconcileLifecycleHooks scope w = (Ok u, w')"
  obtains w1 w2 hooks where
    "reconcile_defined scope (LifecycleHooks scope) w = (Ok (), w1)"
    "GetLifecycleHooks scope w1 = (Ok hooks, w2)"
    "delete_undefined scope hooks w2 = (Ok (), w')"
  using assms unfolding ReconcileLifecycleHooks_def scope_GetLifecycleHooks_def Let_def
  by (auto split: prod.splits result.splits)

text \<open>
  C1: when a pass of \<open>ReconcileLifecycleHooks\<close> returns no error, the names of the hooks
  that the scaling group holds afterwards are exactly the names of the desired hooks:
  every desired hook exists, and every hook of another name has been deleted. This holds
  from every world, whatever the group held before.
\<close>

theorem successful_pass_registers_exactly_desired:
  "ReconcileLifecycleHooks scope w = (Ok (), w') \<Longrightarrow>
     registered_names w' (PoolName scope) = Name ` set (LifecycleHooks scope)"
proof -
  assume "ReconcileLifecycleHooks scope w = (Ok (), w')"
  then obtain w1 w2 hooks where
    a: "reconcile_defined scope (LifecycleHooks scope) w = (Ok (), w1)" and
    b: "GetLifecycleHooks scope w1 = (Ok hooks, w2)" and
    c: "delete_undefined scope hooks w2 = (Ok (), w')"
    by (rule ReconcileLifecycleHooks_Ok)
  let ?g = "PoolName scope" and ?D = "Name ` set (LifecycleHooks scope)"
  from reconcile_defined_names [OF a]
  have n1: "registered_names w1 ?g = registered_names w ?g \<union> ?D" .
  from GetLifecycleHooks_effect [OF b]
  have n2: "registered_names w2 ?g = registered_names w1 ?g"
    by (simp add: registered_names_def)
  from GetLifecycleHooks_names [OF b]
  have "set (map Name hooks) = set (map w_name (registered w1 ?g))" by simp
  then have n3: "Name ` set hooks = registered_names w1 ?g"
    by (simp add: registered_names_def)
  from delete_undefined_Ok [OF c]
  have "registered_names w' ?g = registered_names w2 ?g - (Name ` set hooks - ?D)" by simp
  with n1 n2 n3 show ?thesis by auto
qed

text \<open>C1, at an input: the group holds an orphan, the scope defines hook c.\<close>

theorem successful_pass_registers_exactly_desired_witness:
  "ReconcileLifecycleHooks scope_c world_orphan =
     (Ok (), snd (ReconcileLifecycleHooks scope_c world_orphan)) \<and>
   registered_names world_orphan ''pool'' = {''orphan''} \<and>
   registered_names (snd (ReconcileLifecycleHooks scope_c world_orphan)) ''pool'' = {''c''}"
proof -
  have "fst (ReconcileLifecycleHooks scope_c world_orphan) = Ok ()"
    by (simp add: gateway_defs engine_defs example_defs duration_defs)
  then have h: "ReconcileLifecycleHooks scope_c world_orphan =
     (Ok (), snd (ReconcileLifecycleHooks scope_c world_orphan))"
    by (simp add: prod_eq_iff)
  have o: "registered_names world_orphan ''pool'' = {''orphan''}"
    by (simp add: registered_names_def example_defs)
  from successful_pass_registers_exactly_desired [OF h] h o show ?thesis
    by (simp add: scope_c_def hook_c_def)
qed

text \<open>
  C2: if the first \<open>N\<close> desired hooks reconcile and \<open>CreateLifecycleHook\<close> fails for hook
  number \<open>N\<close>, the pass returns that error, the failed creation is the last operation it
  issues (nothing is attempted for a later hook), the operations of the pass contain no
  listing of all hooks and no deletion (the pruning step is not entered), and the
  HookExists condition is False with reason CreationFailed.
\<close>

theorem create_failure_stops_pass:
  assumes "N < length (LifecycleHooks scope)"
    and "reconcile_defined scope (take N (LifecycleHooks scope)) w = (Ok (), w1)"
    and "GetLifecycleHook scope (LifecycleHooks scope ! N) w1 = (Ok None, w2)"
    and "CreateLifecycleHook scope (LifecycleHooks scope ! N) w2 = (Some err, w3)"
  shows "\<exists>w'. ReconcileLifecycleHooks scope w = (Err err, w') \<and>
      issued w' = issued w1 @ [GetHookCall (Name (LifecycleHooks scope ! N)),
                               CreateCall (Name (LifecycleHooks scope ! N))] \<and>
      GetHooksCall \<notin> set (drop (length (issued w)) (issued w')) \<and>
      (\<forall>n. DeleteCall n \<notin> set (drop (length (issued w)) (issued w'))) \<and>
      Conditions w' LifecycleHookExistsCondition =
        Some \<lparr>Status = ConditionFalse, Severity = Some ConditionSeverityError,
              Reason = Some LifecycleHookCreationFailedReason, Message = Some (Sprintf err)\<rparr>"
proof -
  let ?D = "LifecycleHooks scope"
  let ?h = "?D ! N"
  let ?w' = "MarkFalse LifecycleHookExistsCondition LifecycleHookCreationFailedReason
               ConditionSeverityError err w3"
  from assms(1) have split: "?D = take N ?D @ ?h # drop (Suc N) ?D"
    by (simp add: id_take_nth_drop)
  from assms(3,4) have one: "reconcileLifecycleHook scope ?h w1 = (Err err, ?w')"
    by (simp add: reconcileLifecycleHook_def)
  have "reconcile_defined scope (take N ?D @ ?h # drop (Suc N) ?D) w = (Err err, ?w')"
    by (simp add: reconcile_defined_append assms(2) one)
  with split have loop: "reconcile_defined scope ?D w = (Err err, ?w')" by simp
  then have pass: "ReconcileLifecycleHooks scope w = (Err err, ?w')"
    by (simp add: ReconcileLifecycleHooks_def scope_GetLifecycleHooks_def)
  from GetLifecycleHook_effect [OF assms(3)] CreateLifecycleHook_effect [OF assms(4)]
  have tr: "issued ?w' = issued w1 @ [GetHookCall (Name ?h), CreateCall (Name ?h)]"
    by (simp add: Mark_simps)
  from reconcile_defined_events [OF loop] obtain es where
    es: "issued ?w' = issued w @ es" "hook_events es" by auto
  then have "drop (length (issued w)) (issued ?w') = es" by simp
  with es(2) have quiet: "GetHooksCall \<notin> set (drop (length (issued w)) (issued ?w'))"
      "\<forall>n. DeleteCall n \<notin> set (drop (length (issued w)) (issued ?w'))"
    by (simp_all add: hook_events_def)
  have "Conditions ?w' LifecycleHookExistsCondition =
        Some \<lparr>Status = ConditionFalse, Severity = Some ConditionSeverityError,
              Reason = Some LifecycleHookCreationFailedReason, Message = Some (Sprintf err)\<rparr>"
    by (simp add: Mark_simps)
  with pass tr quiet show ?thesis by blast
qed

text \<open>C2, at an input: scenario D, where the creation of the first of two hooks fails.\<close>

theorem create_failure_stops_pass_witness:
  "(0::nat) < length (LifecycleHooks scenarioD) \<and>
   reconcile_defined scenarioD (take 0 (LifecycleHooks scenarioD)) world_D = (Ok (), world_D) \<and>
   fst (GetLifecycleHook scenarioD (LifecycleHooks scenarioD ! 0) world_D) = Ok None \<and>
   fst (CreateLifecycleHook scenarioD (LifecycleHooks scenarioD ! 0)
         (snd (GetLifecycleHook scenarioD (LifecycleHooks scenarioD ! 0) world_D))) =
     Some (Wrapf (AWSError ''Throttling'')
            ''failed to create lifecycle hook %q for AutoScalingGroup: %q'' [''a'', ''pool'']) \<and>
   (\<exists>w'. ReconcileLifecycleHooks scenarioD world_D =
           (Err (Wrapf (AWSError ''Throttling'')
              ''failed to create lifecycle hook %q for AutoScalingGroup: %q'' [''a'', ''pool'']), w') \<and>
         issued w' = [GetHookCall ''a'', CreateCall ''a''] \<and>
         Conditions w' LifecycleHookExistsCondition =
           Some \<lparr>Status = ConditionFalse, Severity = Some ConditionSeverityError,
                 Reason = Some LifecycleHookCreationFailedReason,
                 Message = Some (Sprintf (Wrapf (AWSError ''Throttling'')
                   ''failed to create lifecycle hook %q for AutoScalingGroup: %q''
                   [''a'', ''pool'']))\<rparr>)"
proof -
  let ?e = "Wrapf (AWSError ''Throttling'')
              ''failed to create lifecycle hook %q for AutoScalingGroup: %q'' [''a'', ''pool'']"
  let ?w2 = "snd (GetLifecycleHook scenarioD (LifecycleHooks scenarioD ! 0) world_D)"
  let ?w3 = "snd (CreateLifecycleHook scenarioD (LifecycleHooks scenarioD ! 0) ?w2)"
  have h1: "(0::nat) < length (LifecycleHooks scenarioD)"
    by (simp add: scenarioD_def)
  have h2: "reconcile_defined scenarioD (take 0 (LifecycleHooks scenarioD)) world_D = (Ok (), world_D)"
    by simp
  have f3: "fst (GetLifecycleHook scenarioD (LifecycleHooks scenarioD ! 0) world_D) = Ok None"
    by (simp add: gateway_defs example_defs)
  then have h3: "GetLifecycleHook scenarioD (LifecycleHooks scenarioD ! 0) world_D = (Ok None, ?w2)"
    by (simp add: prod_eq_iff)
  have f4: "fst (CreateLifecycleHook scenarioD (LifecycleHooks scenarioD ! 0) ?w2) = Some ?e"
    by (simp add: gateway_defs example_defs)
  then have h4: "CreateLifecycleHook scenarioD (LifecycleHooks scenarioD ! 0) ?w2 = (Some ?e, ?w3)"
    by (simp add: prod_eq_iff)
  have i1: "issued world_D = []"
    by (simp add: example_defs)
  have n0: "Name (LifecycleHooks scenarioD ! 0) = ''a''"
    by (simp add: example_defs)
  from create_failure_stops_pass [OF h1 h2 h3 h4] i1 n0 h1 h2 f3 f4 show ?thesis
    by auto
qed

text \<open>
  C5: the claim is that the HookExists condition is marked True only after all desired
  hooks have been processed, and that a pass without failure ends with the condition
  True, as in scenario A. The code marks the condition at the end of
  \<open>reconcileLifecycleHook\<close>, for a hook that it found registered: in scenario A the pass
  creates the hook, returns no error and leaves the condition unset; and with two desired
  hooks of which the first is registered, the condition is True once the first is
  reconciled, before anything is issued for the second.
\<close>

theorem scenarioA_leaves_HookExists_unset:
  "fst (ReconcileLifecycleHooks scenarioA world0) = Ok () \<and>
   Conditions (snd (ReconcileLifecycleHooks scenarioA world0)) LifecycleHookExistsCondition = None \<and>
   Conditions (snd (reconcileLifecycleHook scope_cb hook_c world_c)) LifecycleHookExistsCondition =
     Some true_condition \<and>
   issued (snd (reconcileLifecycleHook scope_cb hook_c world_c)) =
     [GetHookCall ''c'', UpdateCall ''c'']"
  by (simp add: gateway_defs engine_defs example_defs duration_defs true_condition_def)

text \<open>
  C5, amended: \<open>reconcileLifecycleHook\<close> marks the HookExists condition True for a desired
  hook that it finds registered, once that hook is up to date, without waiting for the
  remaining hooks; a pass that returns no error, and among whose desired hooks one was
  registered when the pass began, ends with the condition True; in scenario A the pass
  issues one lookup, one creation and the listing, no update and no deletion, and
  returns no error.
\<close>

theorem HookExists_true_once_a_registered_hook_is_reconciled:
  "(reconcileLifecycleHook scope hook w = (Ok (), w1) \<and>
      Name hook \<in> registered_names w (PoolName scope) \<longrightarrow>
        Conditions w1 LifecycleHookExistsCondition = Some true_condition) \<and>
   (ReconcileLifecycleHooks scope w = (Ok (), w') \<and>
      (\<exists>h\<in>set (LifecycleHooks scope). Name h \<in> registered_names w (PoolName scope)) \<longrightarrow>
        Conditions w' LifecycleHookExistsCondition = Some true_condition) \<and>
   fst (ReconcileLifecycleHooks scenarioA world0) = Ok () \<and>
   issued (snd (ReconcileLifecycleHooks scenarioA world0)) =
     [GetHookCall ''a'', CreateCall ''a'', GetHooksCall]"
proof -
  have one: "Conditions w1 LifecycleHookExistsCondition = Some true_condition"
    if "reconcileLifecycleHook scope hook w = (Ok (), w1)"
      and "Name hook \<in> registered_names w (PoolName scope)"
    using reconcileLifecycleHook_Ok(2) [OF that] .
  have pass: "Conditions w' LifecycleHookExistsCondition = Some true_condition"
    if p: "ReconcileLifecycleHooks scope w = (Ok (), w')"
      and r: "\<exists>h\<in>set (LifecycleHooks scope). Name h \<in> registered_names w (PoolName scope)"
  proof -
    from p obtain v1 v2 hooks where
      a: "reconcile_defined scope (LifecycleHooks scope) w = (Ok (), v1)" and
      b: "GetLifecycleHooks scope v1 = (Ok hooks, v2)" and
      c: "delete_undefined scope hooks v2 = (Ok (), w')"
      by (rule ReconcileLifecycleHooks_Ok)
    from r have "Conditions w LifecycleHookExistsCondition = Some true_condition \<or>
       (\<exists>h\<in>set (LifecycleHooks scope). Name h \<in> registered_names w (PoolName scope))" ..
    from reconcile_defined_condition [OF a this]
    have "Conditions v1 LifecycleHookExistsCondition = Some true_condition" .
    with GetLifecycleHooks_effect [OF b] delete_undefined_Ok [OF c] show ?thesis by simp
  qed
  have run: "fst (ReconcileLifecycleHooks scenarioA world0) = Ok ()"
      "issued (snd (ReconcileLifecycleHooks scenarioA world0)) =
         [GetHookCall ''a'', CreateCall ''a'', GetHooksCall]"
    by (simp_all add: gateway_defs engine_defs example_defs duration_defs)
  from one pass run show ?thesis by blast
qed

text \<open>C5, amended, at an input: a second pass over hook c, which the first pass created.\<close>

theorem HookExists_true_once_a_registered_hook_is_reconciled_witness:
  "ReconcileLifecycleHooks scope_c (snd (ReconcileLifecycleHooks scope_c world_orphan)) =
     (Ok (), snd (ReconcileLifecycleHooks scope_c (snd (ReconcileLifecycleHooks scope_c world_orphan)))) \<and>
   (\<exists>h\<in>set (LifecycleHooks scope_c).
      Name h \<in> registered_names (snd (ReconcileLifecycleHooks scope_c world_orphan)) (PoolName scope_c)) \<and>
   Conditions (snd (ReconcileLifecycleHooks scope_c (snd (ReconcileLifecycleHooks scope_c world_orphan))))
     LifecycleHookExistsCondition = Some true_condition"
proof -
  let ?w = "snd (ReconcileLifecycleHooks scope_c world_orphan)"
  have "fst (ReconcileLifecycleHooks scope_c ?w) = Ok ()"
    by (simp add: gateway_defs engine_defs example_defs duration_defs)
  then have h: "ReconcileLifecycleHooks scope_c ?w = (Ok (), snd (ReconcileLifecycleHooks scope_c ?w))"
    by (simp add: prod_eq_iff)
  have r: "\<exists>h\<in>set (LifecycleHooks scope_c). Name h \<in> registered_names ?w (PoolName scope_c)"
    by (simp add: registered_names_def gateway_defs engine_defs example_defs duration_defs)
  from HookExists_true_once_a_registered_hook_is_reconciled
         [of scope_c hook_c ?w ?w "snd (ReconcileLifecycleHooks scope_c ?w)"] h r
  show ?thesis by blast
qed

text \<open>
  C3: the claim is that a second pass right after a successful one issues no creation,
  update or deletion. The code compares the pointers of the hook read back with those of
  the desired hook, which never agree: the second pass over hook c, which the first pass
  created with the same values, issues an update.
\<close>

theorem second_pass_issues_update:
  "fst (ReconcileLifecycleHooks scope_c (world0\<lparr>mem := mem_two\<rparr>)) = Ok () \<and>
   fst (ReconcileLifecycleHooks scope_c
         (snd (ReconcileLifecycleHooks scope_c (world0\<lparr>mem := mem_two\<rparr>)))) = Ok () \<and>
   issued (snd (ReconcileLifecycleHooks scope_c
         (snd (ReconcileLifecycleHooks scope_c (world0\<lparr>mem := mem_two\<rparr>))))) =
     issued (snd (ReconcileLifecycleHooks scope_c (world0\<lparr>mem := mem_two\<rparr>))) @
     [GetHookCall ''c'', UpdateCall ''c'', GetHooksCall]"
  by (simp add: gateway_defs engine_defs world0_def scope_c_def hook_c_def mem_two_def
       timeoutDuration_def timeoutSeconds_def Seconds_def int64_of_float64_def wrap64_def
       Second_def signed_divide_int_def signed_modulo_int_def launching_def)

text \<open>
  C6: the claim is that every error of a pass is written to a condition before it is
  returned. When the listing of the registered hooks fails, the code returns the error and
  writes nothing: the world after the pass differs from the one before by the issued
  request only.
\<close>

theorem list_failure_writes_no_condition:
  "ReconcileLifecycleHooks no_hooks (world0\<lparr>answers := (\<lambda>k. Some ''AccessDenied'')\<rparr>) =
     (Err (Wrapf (AWSError ''AccessDenied'')
        ''failed to describe lifecycle hooks for AutoScalingGroup: %q'' [''pool'']),
      world0\<lparr>answers := (\<lambda>k. Some ''AccessDenied''), issued := [GetHooksCall]\<rparr>)"
  by (simp add: gateway_defs engine_defs world0_def no_hooks_def)

end
